theory Spec2Isabelle
  imports Main "HOL-Library.Sublist"
begin

section \<open>Python strings\<close>

text \<open>
  A Python \<open>str\<close> is modelled as a \<open>string\<close>, the UTF-8 bytes of the text. The patterns
  the program searches for and the prefixes it adds are ASCII, and an ASCII byte never occurs
  inside the encoding of another code point, so searching, replacing and concatenating on the
  bytes agree with Python on the code points.
\<close>

text \<open>
  \<open>str(n)\<close> for a natural number, as the f-strings \<open>{len(vpcs)}\<close> and
  \<open>{len(records)}\<close> print it.
\<close>

fun str_of_nat :: "nat \<Rightarrow> string" where
  "str_of_nat n =
     (if n < 10 then [char_of (48 + n)]
      else str_of_nat (n div 10) @ [char_of (48 + n mod 10)])"

declare str_of_nat.simps [simp del]

text \<open>
  \<open>s.replace(old, new)\<close>: every occurrence of \<open>old\<close>, found left to right without overlap,
  becomes \<open>new\<close>. For an empty \<open>old\<close> Python puts \<open>new\<close> before every character and at
  the end.
\<close>

function replace_at :: "string \<Rightarrow> string \<Rightarrow> string \<Rightarrow> string" where
  "replace_at old new [] = []"
| "replace_at old new (c # cs) =
     (if old \<noteq> [] \<and> prefix old (c # cs)
      then new @ replace_at old new (drop (length old) (c # cs))
      else c # replace_at old new cs)"
  by pat_completeness auto
termination
  by (relation "measure (\<lambda>(old, new, s). length s)") auto

definition str_replace :: "string \<Rightarrow> string \<Rightarrow> string \<Rightarrow> string" where
  "str_replace s old new =
     (if old = [] then new @ concat (map (\<lambda>c. c # new) s) else replace_at old new s)"

section \<open>The scan result and the mapping state\<close>

text \<open>
  The scan file is a JSON object. Its lists are read with \<open>scan_data.get(key, [])\<close>, so a
  key may be absent (\<open>None\<close>). An entry is read with \<open>entry['id']\<close>, a key every entry
  of a scan result carries, and \<open>entry.get('name', entry['id'])\<close>, a key it may lack. Ids
  and names are strings. A JSON document of another shape (an entry without \<open>id\<close>, a
  number where a string belongs) is outside the model.
\<close>

record organizational_unit =
  ou_id :: string
  ou_name :: "string option"

record account =
  account_id :: string
  account_name :: "string option"

record vpc =
  vpc_id :: string

record scan_data =
  organizational_units :: "organizational_unit list option"
  accounts :: "account list option"
  vpcs :: "vpc list option"

text \<open>
  The mapping state is a dictionary of five lists. Every dictionary in it is a record whose
  optional keys are options; a list that the YAML file lacks reads as the empty list, which is
  what \<open>state.get(key, [])\<close> gives the server.
\<close>

record security_zone =
  sz_id :: string
  sz_name :: string
  sz_source_ou_id :: "string option"
  sz_description :: "string option"

record tenant =
  tenant_id :: string
  tenant_name :: string
  tenant_security_zone :: string

record subtenant =
  st_id :: string
  st_name :: string
  st_tenant :: "string option"
  st_aws_accounts :: "string list"
  st_description :: "string option"

record network_domain =
  nd_id :: string
  nd_name :: string
  nd_vpcs :: "string list"

record proposal =
  p_id :: "string option"
  p_type :: string
  p_description :: string
  p_subtenants :: "string list option"
  p_vpcs :: "string list option"
  p_status :: string

record mapping_state =
  security_zones :: "security_zone list"
  tenants :: "tenant list"
  subtenants :: "subtenant list"
  network_domains :: "network_domain list"
  proposals :: "proposal list"

section \<open>Phase1Mapper\<close>

text \<open>\<open>scan_data.get(key, [])\<close>.\<close>

definition get_list :: "'a list option \<Rightarrow> 'a list" where
  "get_list v = (case v of None \<Rightarrow> [] | Some xs \<Rightarrow> xs)"

text \<open>The dictionary built in the body of the first loop of \<open>_map_basic\<close>.\<close>

definition zone_of_ou :: "organizational_unit \<Rightarrow> security_zone" where
  "zone_of_ou ou =
     \<lparr>sz_id = ''sz-'' @ str_replace (ou_id ou) ''ou-'' '''',
      sz_name = (case ou_name ou of None \<Rightarrow> ou_id ou | Some n \<Rightarrow> n),
      sz_source_ou_id = Some (ou_id ou),
      sz_description =
        Some (''Security zone from OU: '' @ (case ou_name ou of None \<Rightarrow> ou_id ou | Some n \<Rightarrow> n))\<rparr>"

text \<open>The dictionary built in the body of the second loop.\<close>

definition subtenant_of_account :: "account \<Rightarrow> subtenant" where
  "subtenant_of_account a =
     \<lparr>st_id = ''st-'' @ account_id a,
      st_name = (case account_name a of None \<Rightarrow> account_id a | Some n \<Rightarrow> n),
      st_tenant = None,
      st_aws_accounts = [account_id a],
      st_description =
        Some (''Subtenant for account: '' @
          (case account_name a of None \<Rightarrow> account_id a | Some n \<Rightarrow> n))\<rparr>"

text \<open>
  The two \<open>for\<close> loops: each iteration appends one dictionary to a list of the state.
\<close>

fun zones_loop :: "organizational_unit list \<Rightarrow> mapping_state \<Rightarrow> mapping_state" where
  "zones_loop [] state = state"
| "zones_loop (ou # ous) state =
     zones_loop ous (state\<lparr>security_zones := security_zones state @ [zone_of_ou ou]\<rparr>)"

fun subtenants_loop :: "account list \<Rightarrow> mapping_state \<Rightarrow> mapping_state" where
  "subtenants_loop [] state = state"
| "subtenants_loop (a # as) state =
     subtenants_loop as (state\<lparr>subtenants := subtenants state @ [subtenant_of_account a]\<rparr>)"

text \<open>
  \<open>_generate_proposals\<close>: the list starts empty; a \<open>tenant_grouping\<close> proposal is appended
  when \<open>len(state["subtenants"]) > 1\<close>, a \<open>network_domain\<close> proposal when the list of VPCs is
  truthy, that is non-empty. Neither dictionary has an \<open>id\<close> key.
\<close>

definition generate_proposals :: "mapping_state \<Rightarrow> scan_data \<Rightarrow> proposal list" where
  "generate_proposals state scan =
     (let proposals0 = [];
          proposals1 =
            (if length (subtenants state) > 1
             then proposals0 @
               [\<lparr>p_id = None, p_type = ''tenant_grouping'',
                 p_description = ''Group subtenants into logical tenants'',
                 p_subtenants = Some (map st_id (subtenants state)),
                 p_vpcs = None, p_status = ''pending''\<rparr>]
             else proposals0);
          vs = get_list (vpcs scan)
      in if vs \<noteq> []
         then proposals1 @
           [\<lparr>p_id = None, p_type = ''network_domain'',
             p_description =
               ''Create network domains from '' @ str_of_nat (length vs) @ '' VPCs'',
             p_subtenants = None,
             p_vpcs = Some (map vpc_id vs), p_status = ''pending''\<rparr>]
         else proposals1)"

section \<open>Files and the libraries around them\<close>

text \<open>
  A path is a \<open>pathlib.Path\<close>, modelled by its \<open>parts\<close>: the names between the slashes, after
  the root \<open>/\<close> (or \<open>//\<close>) for an absolute path. \<open>Path(s)\<close> drops empty names and the name
  \<open>.\<close>, so \<open>Path('')\<close> and \<open>Path('.')\<close> have no parts: they are the working directory.
  The name \<open>..\<close> is kept as it is; what it and a symbolic link resolve to is outside the
  model, and a statement that depends on it says that the path has no \<open>..\<close>.
\<close>

type_synonym path = "string list"

fun split_slash :: "string \<Rightarrow> string list" where
  "split_slash [] = [[]]"
| "split_slash (c # cs) =
     (if c = CHR ''/'' then [] # split_slash cs
      else (case split_slash cs of
              [] \<Rightarrow> [[c]]
            | name # names \<Rightarrow> (c # name) # names))"

definition path_of :: "string \<Rightarrow> path" where
  "path_of s =
     (if prefix ''//'' s \<and> \<not> prefix ''///'' s then [''//'']
      else if prefix ''/'' s then [''/'']
      else [])
     @ filter (\<lambda>name. name \<noteq> [] \<and> name \<noteq> ''.'') (split_slash s)"

text \<open>\<open>Path.parent\<close>: a root and the working directory are their own parents.\<close>

definition parent :: "path \<Rightarrow> path" where
  "parent p = (if p = [''/''] \<or> p = [''//''] then p else butlast p)"

text \<open>
  The file system is the store of the regular files, from paths to contents, and the set of
  the directories. The working directory and the roots are directories. A path exists when it
  is a directory or a regular file. Permissions, full disks and other processes are outside
  the model.
\<close>

type_synonym file_system = "path \<rightharpoonup> string"

definition is_dir :: "path set \<Rightarrow> path \<Rightarrow> bool" where
  "is_dir dirs p = (p = [] \<or> p = [''/''] \<or> p = [''//''] \<or> p \<in> dirs)"

definition path_exists :: "path set \<Rightarrow> file_system \<Rightarrow> path \<Rightarrow> bool" where
  "path_exists dirs fs p = (is_dir dirs p \<or> fs p \<noteq> None)"

text \<open>
  The exceptions. The string of a FileNotFoundError and of a RuntimeError is the message that
  the program gives it; a FileNotFoundError of the operating system has the empty message.
  \<open>OSError\<close> stands for the exception of an \<open>open\<close> for reading that finds no regular file:
  FileNotFoundError for a missing path, IsADirectoryError for a directory.
\<close>

datatype error =
  FileNotFoundError string
| IsADirectoryError
| NotADirectoryError
| FileExistsError
| OSError
| JSONDecodeError
| YAMLError
| RuntimeError string

text \<open>
  \<open>walk\<close> is the way of the operating system through the ancestors of a path, nearest to
  the root first: each must be a directory.
\<close>

fun walk :: "path set \<Rightarrow> file_system \<Rightarrow> path list \<Rightarrow> error option" where
  "walk dirs fs [] = None"
| "walk dirs fs (q # qs) =
     (if is_dir dirs q then walk dirs fs qs
      else if fs q \<noteq> None then Some NotADirectoryError
      else Some (FileNotFoundError []))"

text \<open>
  \<open>open(p, "w")\<close> and the writes that follow: the ancestors of \<open>p\<close> must be directories and
  \<open>p\<close> must not be one; then \<open>p\<close> is a regular file with the content written.
\<close>

definition open_write :: "path set \<Rightarrow> file_system \<Rightarrow> path \<Rightarrow> string \<Rightarrow> error + file_system"
  where
  "open_write dirs fs p content =
     (case walk dirs fs (butlast (prefixes p)) of
        Some e \<Rightarrow> Inl e
      | None \<Rightarrow> if is_dir dirs p then Inl IsADirectoryError else Inr (fs(p \<mapsto> content)))"

text \<open>
  \<open>p.mkdir(parents=True, exist_ok=True)\<close>: \<open>p\<close> and its ancestors, nearest to the root
  first. One that is a directory stays, one that is missing becomes a directory, and a
  regular file stops the call: with FileExistsError when it is \<open>p\<close> itself, with
  NotADirectoryError when it is an ancestor. The call that raises has created nothing.
\<close>

fun mkdirs :: "path set \<Rightarrow> file_system \<Rightarrow> path list \<Rightarrow> error + path set" where
  "mkdirs dirs fs [] = Inr dirs"
| "mkdirs dirs fs (q # qs) =
     (if is_dir dirs q then mkdirs dirs fs qs
      else if fs q \<noteq> None then Inl (if qs = [] then FileExistsError else NotADirectoryError)
      else mkdirs (insert q dirs) fs qs)"

definition mkdir_parents :: "path set \<Rightarrow> file_system \<Rightarrow> path \<Rightarrow> error + path set" where
  "mkdir_parents dirs fs p = mkdirs dirs fs (prefixes p)"

text \<open>
  What the program calls but does not contain is a parameter of the model:
  \<^item> \<open>json_load\<close> is \<open>json.load\<close> on the text of the scan file, \<open>None\<close> when it raises;
  \<^item> \<open>yaml_load_decisions\<close> is \<open>yaml.safe_load\<close> on the text of the decisions file: \<open>None\<close>
    when it raises, \<open>Some None\<close> for a document that is falsy, \<open>Some (Some d)\<close> otherwise;
    \<open>empty_dict\<close> is the decisions value \<open>{}\<close>;
  \<^item> \<open>yaml_safe_load\<close> is \<open>yaml.safe_load\<close> on the text of a mapping-state file, \<open>None\<close> when
    it raises; a document that parses but is not a mapping state (an empty file, a list) is
    outside the model;
  \<^item> \<open>yaml_dump\<close> is \<open>yaml.dump(state, default_flow_style=False)\<close>;
  \<^item> \<open>foundation_mapper\<close> is \<open>CloudstrateMapper(scan_data, decisions).map_phase1()\<close> of the
    foundation package, \<open>None\<close> when \<open>from mapper import CloudstrateMapper\<close> raises
    ImportError.
\<close>

record 'd environment =
  json_load :: "string \<Rightarrow> scan_data option"
  yaml_load_decisions :: "string \<Rightarrow> 'd option option"
  empty_dict :: 'd
  yaml_safe_load :: "string \<Rightarrow> mapping_state option"
  yaml_dump :: "mapping_state \<Rightarrow> string"
  foundation_mapper :: "(scan_data \<Rightarrow> 'd \<Rightarrow> mapping_state) option"

text \<open>The object: its two paths and the attribute \<open>_state\<close>.\<close>

record phase1_mapper =
  scan_file :: path
  decisions_file :: "path option"
  p1_state :: "mapping_state option"

text \<open>
  \<open>Phase1Mapper.__init__\<close>. The arguments are strings. \<open>Path(decisions_file) if
  decisions_file else None\<close>: an empty string counts as no decisions file. The checks are
  \<open>Path.exists()\<close>, which holds for a directory too.
\<close>

definition phase1_mapper_init ::
  "path set \<Rightarrow> file_system \<Rightarrow> string \<Rightarrow> string option \<Rightarrow> error + phase1_mapper" where
  "phase1_mapper_init dirs fs scan decisions =
     (let self = \<lparr>scan_file = path_of scan,
                   decisions_file =
                     (case decisions of
                        None \<Rightarrow> None
                      | Some d \<Rightarrow> if d = [] then None else Some (path_of d)),
                   p1_state = None\<rparr>
      in if \<not> path_exists dirs fs (scan_file self)
         then Inl (FileNotFoundError (''Scan file not found: '' @ scan))
         else (case decisions_file self of
                 None \<Rightarrow> Inr self
               | Some d \<Rightarrow>
                   if \<not> path_exists dirs fs d
                   then Inl (FileNotFoundError
                               (''Decisions file not found: '' @ (case decisions of
                                                                   None \<Rightarrow> [] | Some s \<Rightarrow> s)))
                   else Inr self))"

text \<open>
  \<open>_map_basic\<close>. The decisions are an argument that the function never reads; the state is
  stored in \<open>self._state\<close> and returned.
\<close>

definition map_basic ::
  "phase1_mapper \<Rightarrow> scan_data \<Rightarrow> 'd \<Rightarrow> mapping_state \<times> phase1_mapper" where
  "map_basic self scan decisions =
     (let state0 = \<lparr>security_zones = [], tenants = [], subtenants = [],
                     network_domains = [], proposals = []\<rparr>;
          state1 = zones_loop (get_list (organizational_units scan)) state0;
          state2 = subtenants_loop (get_list (accounts scan)) state1;
          state3 = state2\<lparr>proposals := generate_proposals state2 scan\<rparr>
      in (state3, self\<lparr>p1_state := Some state3\<rparr>))"

text \<open>
  The decisions that \<open>run\<close> loads: \<open>{}\<close> without a decisions file, and
  \<open>yaml.safe_load(f) or {}\<close> with one.
\<close>

definition load_decisions ::
  "'d environment \<Rightarrow> file_system \<Rightarrow> phase1_mapper \<Rightarrow> error + 'd" where
  "load_decisions env fs self =
     (case decisions_file self of
        None \<Rightarrow> Inr (empty_dict env)
      | Some d \<Rightarrow>
          (case fs d of
             None \<Rightarrow> Inl OSError
           | Some text \<Rightarrow>
               (case yaml_load_decisions env text of
                  None \<Rightarrow> Inl YAMLError
                | Some None \<Rightarrow> Inr (empty_dict env)
                | Some (Some v) \<Rightarrow> Inr v)))"

text \<open>
  \<open>run\<close>: load the scan, load the decisions, then the foundation mapper when its import
  succeeds and \<open>_map_basic\<close> when it raises ImportError. An exception leaves the object as it
  was.
\<close>

definition run ::
  "'d environment \<Rightarrow> file_system \<Rightarrow> phase1_mapper \<Rightarrow> (error + mapping_state) \<times> phase1_mapper"
  where
  "run env fs self =
     (case fs (scan_file self) of
        None \<Rightarrow> (Inl OSError, self)
      | Some text \<Rightarrow>
          (case json_load env text of
             None \<Rightarrow> (Inl JSONDecodeError, self)
           | Some scan \<Rightarrow>
               (case load_decisions env fs self of
                  Inl e \<Rightarrow> (Inl e, self)
                | Inr decisions \<Rightarrow>
                    (case foundation_mapper env of
                       Some map_phase1 \<Rightarrow>
                         (let state = map_phase1 scan decisions
                          in (Inr state, self\<lparr>p1_state := Some state\<rparr>))
                     | None \<Rightarrow>
                         (let (state, self') = map_basic self scan decisions
                          in (Inr state, self'))))))"

text \<open>
  \<open>save_state\<close>: without a state, RuntimeError before anything is touched. With one, the
  parent of the output path is created with its ancestors, the file is opened for writing,
  and the two comment lines and the dump of the state become its content. An exception of
  \<open>mkdir\<close> or \<open>open\<close> leaves the method; the directories made before it stay.
\<close>

definition state_header :: string where
  "state_header =
     ''# Cloudstrate Mapping State'' @ [CHR 0x0A] @
     ''# Generated by Phase 1 Mapper'' @ [CHR 0x0A, CHR 0x0A]"

definition save_state ::
  "'d environment \<Rightarrow> phase1_mapper \<Rightarrow> path set \<Rightarrow> file_system \<Rightarrow> string \<Rightarrow>
   (error + unit) \<times> path set \<times> file_system"
  where
  "save_state env self dirs fs output_path =
     (case p1_state self of
        None \<Rightarrow> (Inl (RuntimeError ''No state to save. Run map() first.''), dirs, fs)
      | Some state \<Rightarrow>
          (let p = path_of output_path
           in case mkdir_parents dirs fs (parent p) of
                Inl e \<Rightarrow> (Inl e, dirs, fs)
              | Inr dirs' \<Rightarrow>
                  (case open_write dirs' fs p (state_header @ yaml_dump env state) of
                     Inl e \<Rightarrow> (Inl e, dirs', fs)
                   | Inr fs' \<Rightarrow> (Inr (), dirs', fs'))))"

section \<open>Phase2Server\<close>

record phase2_server =
  state_file :: path
  state :: mapping_state

text \<open>
  \<open>Phase2Server.__init__\<close>: the state file must exist, and is read and parsed at once; a
  path that exists without being a regular file is a directory, and \<open>open\<close> raises.
\<close>

definition phase2_server_init ::
  "'d environment \<Rightarrow> path set \<Rightarrow> file_system \<Rightarrow> string \<Rightarrow> error + phase2_server" where
  "phase2_server_init env dirs fs file =
     (if \<not> path_exists dirs fs (path_of file)
      then Inl (FileNotFoundError (''State file not found: '' @ file))
      else (case fs (path_of file) of
              None \<Rightarrow> Inl IsADirectoryError
            | Some text \<Rightarrow>
                (case yaml_safe_load env text of
                   None \<Rightarrow> Inl YAMLError
                 | Some st \<Rightarrow> Inr \<lparr>state_file = path_of file, state = st\<rparr>)))"

text \<open>
  \<open>_save_state\<close>: the state file is rewritten with the dump of the whole state. It is the
  file that the constructor read, a regular file in directories that exist, so opening it
  for writing succeeds.
\<close>

definition p2_save_state :: "'d environment \<Rightarrow> phase2_server \<Rightarrow> file_system \<Rightarrow> file_system" where
  "p2_save_state env self fs = fs(state_file self \<mapsto> yaml_dump env (state self))"

text \<open>
  The loop of both handlers, \<open>for proposal in self.state.get("proposals", [])\<close>: the first
  proposal whose \<open>proposal.get("id")\<close> equals the id of the request gets the new status and
  the loop ends; \<open>None\<close> when the loop runs to its end. A proposal without an \<open>id\<close> key gives
  \<open>None\<close> there, which no id of a request equals. The dictionaries of the list are distinct
  objects (a state file without YAML aliases), so the assignment changes one entry.
\<close>

fun proposal_loop :: "string \<Rightarrow> string \<Rightarrow> proposal list \<Rightarrow> proposal list option" where
  "proposal_loop proposal_id new_status [] = None"
| "proposal_loop proposal_id new_status (p # ps) =
     (if p_id p = Some proposal_id then Some (p\<lparr>p_status := new_status\<rparr> # ps)
      else map_option ((#) p) (proposal_loop proposal_id new_status ps))"

text \<open>
  The responses: \<open>jsonify({"status": "ok"})\<close>, and
  \<open>jsonify({"error": "Proposal not found"})\<close> with status 404.
\<close>

datatype response = Status_ok | Proposal_not_found

definition accept_proposal ::
  "'d environment \<Rightarrow> phase2_server \<Rightarrow> file_system \<Rightarrow> string \<Rightarrow>
   response \<times> phase2_server \<times> file_system" where
  "accept_proposal env self fs proposal_id =
     (case proposal_loop proposal_id ''accepted'' (proposals (state self)) of
        Some ps \<Rightarrow>
          (let self' = self\<lparr>state := (state self)\<lparr>proposals := ps\<rparr>\<rparr>
           in (Status_ok, self', p2_save_state env self' fs))
      | None \<Rightarrow> (Proposal_not_found, self, fs))"

definition reject_proposal ::
  "'d environment \<Rightarrow> phase2_server \<Rightarrow> file_system \<Rightarrow> string \<Rightarrow>
   response \<times> phase2_server \<times> file_system" where
  "reject_proposal env self fs proposal_id =
     (case proposal_loop proposal_id ''rejected'' (proposals (state self)) of
        Some ps \<Rightarrow>
          (let self' = self\<lparr>state := (state self)\<lparr>proposals := ps\<rparr>\<rparr>
           in (Status_ok, self', p2_save_state env self' fs))
      | None \<Rightarrow> (Proposal_not_found, self, fs))"

text \<open>A sequence of requests to the two endpoints, with the responses in order.\<close>

datatype request = Accept string | Reject string

fun handle :: "'d environment \<Rightarrow> phase2_server \<Rightarrow> file_system \<Rightarrow> request \<Rightarrow>
   response \<times> phase2_server \<times> file_system" where
  "handle env self fs (Accept proposal_id) = accept_proposal env self fs proposal_id"
| "handle env self fs (Reject proposal_id) = reject_proposal env self fs proposal_id"

fun serve :: "'d environment \<Rightarrow> phase2_server \<Rightarrow> file_system \<Rightarrow> request list \<Rightarrow>
   response list \<times> phase2_server \<times> file_system" where
  "serve env self fs [] = ([], self, fs)"
| "serve env self fs (r # rs) =
     (case handle env self fs r of
        (resp, self', fs') \<Rightarrow>
          (case serve env self' fs' rs of
             (resps, self'', fs'') \<Rightarrow> (resp # resps, self'', fs'')))"

section \<open>AnalystQuery\<close>

text \<open>
  \<open>text.strip()\<close>, \<open>text.upper()\<close> and \<open>text.lower()\<close> are methods of Python's \<open>str\<close>. What
  they do to a text depends on the Unicode tables of the interpreter (\<open>strip\<close> removes every
  character that Unicode counts as whitespace, the case mappings change letters far outside
  ASCII), and none of it is in the program. So the three methods are parameters of the model,
  functions on the UTF-8 bytes of a text, and every statement about the program holds for
  whatever they do.
\<close>

record str_methods =
  py_strip :: "string \<Rightarrow> string"
  py_upper :: "string \<Rightarrow> string"
  py_lower :: "string \<Rightarrow> string"

text \<open>\<open>kw in s\<close>: the string \<open>kw\<close> occurs in \<open>s\<close>.\<close>

fun str_contains :: "string \<Rightarrow> string \<Rightarrow> bool" where
  "str_contains kw [] = (kw = [])"
| "str_contains kw (c # cs) = (prefix kw (c # cs) \<or> str_contains kw cs)"

text \<open>
  An exception is an instance of \<open>Exception\<close>: an \<open>ImportError\<close>, which
  \<open>except ImportError\<close> catches, or any other, and \<open>except Exception\<close> catches both.
  The string is \<open>str(e)\<close>. KeyboardInterrupt and SystemExit are not modelled.
\<close>

datatype exn = ImportError string | Exception string

fun str_of_exn :: "exn \<Rightarrow> string" where
  "str_of_exn (ImportError m) = m"
| "str_of_exn (Exception m) = m"

text \<open>
  The database. A session is what \<open>session.run(cypher)\<close> followed by the iteration over the
  result does: the rows, or an exception. A driver is what \<open>driver.session()\<close> does: a
  session, or an exception. The session leaves its \<open>with\<close> block as neo4j's does, without
  swallowing an exception.
\<close>

type_synonym 'r session = "string \<Rightarrow> exn + 'r list"
type_synonym 'r driver = "exn + 'r session"

text \<open>The values of a result dictionary, and the dictionary.\<close>

datatype 'r val = Null | Str string | Rows "'r list"

type_synonym 'r result = "string \<rightharpoonup> 'r val"

text \<open>
  The object: \<open>config\<close> is \<open>None\<close> without a configuration and the value of
  \<open>config.llm.provider\<close> with one; \<open>driver\<close> is the attribute \<open>_driver\<close>. The field
  \<open>calls\<close> is not in the program: it logs, in order, each call of \<open>_execute_cypher\<close>,
  \<open>_translate_with_llm\<close> and \<open>_translate_basic\<close> with its argument, so that a statement can
  say which method received which text.
\<close>

datatype call = Execute_cypher string | Translate_with_llm string | Translate_basic string

record 'r analyst_query =
  config :: "string option"
  driver :: "'r driver option"
  calls :: "call list"

text \<open>
  \<open>_get_driver\<close>. The argument \<open>connect\<close> is what
  \<open>from neo4j import GraphDatabase; GraphDatabase.driver(uri, auth=(user, password))\<close> does
  when it is reached: a driver, or an exception.
\<close>

definition get_driver ::
  "exn + 'r driver \<Rightarrow> 'r analyst_query \<Rightarrow> exn + ('r driver \<times> 'r analyst_query)" where
  "get_driver connect self =
     (case driver self of
        Some d \<Rightarrow> Inr (d, self)
      | None \<Rightarrow>
          (case connect of
             Inl e \<Rightarrow> Inl e
           | Inr d \<Rightarrow> Inr (d, self\<lparr>driver := Some d\<rparr>)))"

text \<open>\<open>_is_cypher\<close>: \<open>text.strip().upper().startswith(cypher_keywords)\<close>.\<close>

definition cypher_keywords :: "string list" where
  "cypher_keywords = [''MATCH'', ''RETURN'', ''CREATE'', ''MERGE'', ''DELETE'', ''CALL'', ''WITH'']"

definition is_cypher :: "str_methods \<Rightarrow> string \<Rightarrow> bool" where
  "is_cypher py text =
     list_ex (\<lambda>kw. prefix kw (py_upper py (py_strip py text))) cypher_keywords"

text \<open>
  \<open>_execute_cypher\<close>. The call of \<open>_get_driver\<close> stands before the \<open>try\<close>, so its exception
  leaves the method; everything after it is inside \<open>try ... except Exception\<close>.
\<close>

definition execute_cypher ::
  "exn + 'r driver \<Rightarrow> 'r analyst_query \<Rightarrow> string \<Rightarrow> (exn + 'r result) \<times> 'r analyst_query"
  where
  "execute_cypher connect self cypher =
     (let self0 = self\<lparr>calls := calls self @ [Execute_cypher cypher]\<rparr>
      in case get_driver connect self0 of
           Inl e \<Rightarrow> (Inl e, self0)
         | Inr (d, self1) \<Rightarrow>
             (case (case d of Inl e \<Rightarrow> Inl e | Inr session \<Rightarrow> session cypher) of
                Inr records \<Rightarrow>
                  (Inr [''cypher'' \<mapsto> Str cypher,
                        ''data'' \<mapsto> Rows records,
                        ''explanation'' \<mapsto>
                          Str (''Executed Cypher query, returned '' @
                               str_of_nat (length records) @ '' results.'')],
                   self1)
              | Inl e \<Rightarrow>
                  (Inr [''cypher'' \<mapsto> Str cypher,
                        ''data'' \<mapsto> Rows [],
                        ''error'' \<mapsto> Str (str_of_exn e)],
                   self1)))"

text \<open>\<open>_translate_with_llm\<close>: a stub that returns \<open>None\<close>.\<close>

definition translate_with_llm ::
  "'r analyst_query \<Rightarrow> string \<Rightarrow> string option \<times> 'r analyst_query" where
  "translate_with_llm self question =
     (None, self\<lparr>calls := calls self @ [Translate_with_llm question]\<rparr>)"

text \<open>
  \<open>_translate_basic\<close>: the table of keyword sets and queries, and the loop that returns the
  query of the first entry one of whose keywords occurs in the lowercased question.
\<close>

definition patterns :: "(string list \<times> string) list" where
  "patterns =
     [([''accounts'', ''aws accounts'', ''all accounts''],
       ''MATCH (a:AWSAccount) RETURN a.name as name, a.id as id LIMIT 50''),
      ([''production'', ''prod accounts''],
       ''MATCH (a:AWSAccount) WHERE a.name CONTAINS '' @ [CHR 0x27] @ ''prod'' @ [CHR 0x27] @
       '' OR a.name CONTAINS '' @ [CHR 0x27] @ ''production'' @ [CHR 0x27] @
       '' RETURN a.name as name, a.id as id''),
      ([''vpcs'', ''virtual private clouds'', ''networks''],
       ''MATCH (v:VPC) RETURN v.id as id, v.cidr as cidr LIMIT 50''),
      ([''iam roles'', ''roles''],
       ''MATCH (r:IAMRole) RETURN r.name as name, r.arn as arn LIMIT 50''),
      ([''cross-account'', ''cross account'', ''trust relationships''],
       ''MATCH (r:IAMRole)-[:TRUSTS]->(a:AWSAccount) RETURN r.name as role, a.name as trusted_account LIMIT 50''),
      ([''security groups'', ''sgs''],
       ''MATCH (sg:SecurityGroup) RETURN sg.name as name, sg.id as id LIMIT 50''),
      ([''subnets''],
       ''MATCH (s:Subnet) RETURN s.id as id, s.cidr as cidr, s.availability_zone as az LIMIT 50'')]"

fun patterns_loop :: "(string list \<times> string) list \<Rightarrow> string \<Rightarrow> string option" where
  "patterns_loop [] question_lower = None"
| "patterns_loop ((keywords, cypher) # rest) question_lower =
     (if list_ex (\<lambda>kw. str_contains kw question_lower) keywords then Some cypher
      else patterns_loop rest question_lower)"

definition translate_basic ::
  "str_methods \<Rightarrow> 'r analyst_query \<Rightarrow> string \<Rightarrow> string option \<times> 'r analyst_query"
  where
  "translate_basic py self question =
     (patterns_loop patterns (py_lower py question),
      self\<lparr>calls := calls self @ [Translate_basic question]\<rparr>)"

text \<open>
  \<open>_execute_natural_language\<close>. The first part is the \<open>try\<close> block: it returns a result,
  lets an exception other than ImportError leave the method, or goes on to the fallback (the
  condition is false, the translation is \<open>None\<close> or empty and so fails \<open>if cypher:\<close>, or
  ImportError was raised and caught).
\<close>

datatype 'a attempt = Returned 'a | Fall_through

definition try_llm ::
  "exn + 'r driver \<Rightarrow> 'r analyst_query \<Rightarrow> string \<Rightarrow>
   (exn + 'r result) attempt \<times> 'r analyst_query" where
  "try_llm connect self question =
     (if (case config self of None \<Rightarrow> False | Some provider \<Rightarrow> provider \<noteq> ''disabled'')
      then (case translate_with_llm self question of
              (None, self1) \<Rightarrow> (Fall_through, self1)
            | (Some cypher, self1) \<Rightarrow>
                if cypher = [] then (Fall_through, self1)
                else (case execute_cypher connect self1 cypher of
                        (Inr result, self2) \<Rightarrow>
                          (Returned (Inr (result(''original_question'' \<mapsto> Str question))), self2)
                      | (Inl (ImportError m), self2) \<Rightarrow> (Fall_through, self2)
                      | (Inl (Exception m), self2) \<Rightarrow> (Returned (Inl (Exception m)), self2)))
      else (Fall_through, self))"

text \<open>The dictionary of the last \<open>return\<close>, when no query could be found.\<close>

definition no_translation :: "string \<Rightarrow> 'r result" where
  "no_translation question =
     [''cypher'' \<mapsto> Null,
      ''data'' \<mapsto> Rows [],
      ''error'' \<mapsto>
        Str (''Could not translate question to Cypher. '' @
             ''LLM integration required for natural language queries.''),
      ''original_question'' \<mapsto> Str question]"

definition execute_natural_language ::
  "str_methods \<Rightarrow> exn + 'r driver \<Rightarrow> 'r analyst_query \<Rightarrow> string \<Rightarrow>
   (exn + 'r result) \<times> 'r analyst_query"
  where
  "execute_natural_language py connect self question =
     (case try_llm connect self question of
        (Returned r, self1) \<Rightarrow> (r, self1)
      | (Fall_through, self1) \<Rightarrow>
          (case translate_basic py self1 question of
             (None, self2) \<Rightarrow> (Inr (no_translation question), self2)
           | (Some cypher, self2) \<Rightarrow>
               if cypher = [] then (Inr (no_translation question), self2)
               else (case execute_cypher connect self2 cypher of
                       (Inr result, self3) \<Rightarrow>
                         (Inr (result(''original_question'' \<mapsto> Str question)), self3)
                     | (Inl e, self3) \<Rightarrow> (Inl e, self3))))"

text \<open>\<open>execute\<close>.\<close>

definition execute ::
  "str_methods \<Rightarrow> exn + 'r driver \<Rightarrow> 'r analyst_query \<Rightarrow> string \<Rightarrow>
   (exn + 'r result) \<times> 'r analyst_query"
  where
  "execute py connect self question =
     (if is_cypher py question then execute_cypher connect self question
      else execute_natural_language py connect self question)"

section \<open>Example data\<close>

text \<open>
  The scenario of the specification: two organizational units, two accounts and one VPC, in
  a scan file that the JSON library parses; no decisions file and no foundation package.
\<close>

definition example_scan :: scan_data where
  "example_scan =
     \<lparr>organizational_units =
        Some [\<lparr>ou_id = ''ou-1'', ou_name = Some ''Prod''\<rparr>,
              \<lparr>ou_id = ''ou-2'', ou_name = Some ''Dev''\<rparr>],
      accounts =
        Some [\<lparr>account_id = ''111'', account_name = Some ''A''\<rparr>,
              \<lparr>account_id = ''222'', account_name = Some ''B''\<rparr>],
      vpcs = Some [\<lparr>vpc_id = ''vpc-9''\<rparr>]\<rparr>"

definition example_env :: "unit environment" where
  "example_env =
     \<lparr>json_load = (\<lambda>text. if text = ''scan'' then Some example_scan else None),
      yaml_load_decisions = (\<lambda>text. None),
      empty_dict = (),
      yaml_safe_load = (\<lambda>text. None),
      yaml_dump = (\<lambda>st. concat (map p_status (proposals st))),
      foundation_mapper = None\<rparr>"

definition example_fs :: file_system where
  "example_fs = [[''scan.json''] \<mapsto> ''scan'']"

definition example_mapper :: phase1_mapper where
  "example_mapper = \<lparr>scan_file = [''scan.json''], decisions_file = None, p1_state = None\<rparr>"

text \<open>
  A server whose state holds one pending proposal with the id \<open>p1\<close> and one without an id.
\<close>

definition example_proposals :: "proposal list" where
  "example_proposals =
     [\<lparr>p_id = None, p_type = ''network_domain'', p_description = ''Domains'',
       p_subtenants = None, p_vpcs = Some [''vpc-9''], p_status = ''pending''\<rparr>,
      \<lparr>p_id = Some ''p1'', p_type = ''tenant_grouping'', p_description = ''Group apps'',
       p_subtenants = Some [''st-1''], p_vpcs = None, p_status = ''pending''\<rparr>]"

definition example_server :: phase2_server where
  "example_server =
     \<lparr>state_file = [''state.yaml''],
      state = \<lparr>security_zones = [], tenants = [], subtenants = [], network_domains = [],
               proposals = example_proposals\<rparr>\<rparr>"

text \<open>
  The three \<open>str\<close> methods on ASCII text, for the examples, whose texts are ASCII: there the
  whitespace of \<open>strip\<close> is the characters 9 to 13 and 28 to 32, and the case mappings change
  the 26 letters.
\<close>

definition ascii_space :: "char \<Rightarrow> bool" where
  "ascii_space c = (let n = (of_char c :: nat) in (9 \<le> n \<and> n \<le> 13) \<or> (28 \<le> n \<and> n \<le> 32))"

definition ascii_strip :: "string \<Rightarrow> string" where
  "ascii_strip s = rev (dropWhile ascii_space (rev (dropWhile ascii_space s)))"

definition ascii_upper :: "string \<Rightarrow> string" where
  "ascii_upper s =
     map (\<lambda>c. let n = (of_char c :: nat) in if 97 \<le> n \<and> n \<le> 122 then char_of (n - 32) else c) s"

definition ascii_lower :: "string \<Rightarrow> string" where
  "ascii_lower s =
     map (\<lambda>c. let n = (of_char c :: nat) in if 65 \<le> n \<and> n \<le> 90 then char_of (n + 32) else c) s"

definition on_ascii :: str_methods where
  "on_ascii = \<lparr>py_strip = ascii_strip, py_upper = ascii_upper, py_lower = ascii_lower\<rparr>"

text \<open>
  An AnalystQuery without configuration and without a driver yet; a database that answers
  every query with one row; a session whose \<open>run\<close> raises; a URI for which
  \<open>GraphDatabase.driver\<close> raises.
\<close>

definition example_analyst :: "unit analyst_query" where
  "example_analyst = \<lparr>config = None, driver = None, calls = []\<rparr>"

definition one_row :: "exn + unit driver" where
  "one_row = Inr (Inr (\<lambda>cypher. Inr [()]))"

definition failing_session :: "exn + unit driver" where
  "failing_session = Inr (Inr (\<lambda>cypher. Inl (Exception ''Query failed'')))"

definition bad_uri :: "exn + unit driver" where
  "bad_uri = Inl (Exception ''URI scheme http is not supported'')"

section \<open>Checks of the string functions\<close>

lemma str_of_nat_examples:
  "str_of_nat 0 = ''0''" "str_of_nat 7 = ''7''" "str_of_nat 10 = ''10''"
  "str_of_nat 250 = ''250''"
  by code_simp+

lemma str_contains_sublist: "str_contains kw s \<longleftrightarrow> sublist kw s"
  by (induction s) (simp_all add: sublist_Cons_right)

lemma on_ascii_examples:
  "py_strip on_ascii ''  MATCH (n)  '' = ''MATCH (n)''"
  "py_upper on_ascii ''Return 1;'' = ''RETURN 1;''"
  "py_lower on_ascii ''Show IAM Roles'' = ''show iam roles''"
  by code_simp+

section \<open>Facts about the loops\<close>

lemma zones_loop_zones:
  "security_zones (zones_loop ous st) = security_zones st @ map zone_of_ou ous"
  by (induction ous arbitrary: st) simp_all

lemma zones_loop_frame:
  "subtenants (zones_loop ous st) = subtenants st"
  "tenants (zones_loop ous st) = tenants st"
  "network_domains (zones_loop ous st) = network_domains st"
  "proposals (zones_loop ous st) = proposals st"
  by (induction ous arbitrary: st) simp_all

lemma subtenants_loop_subtenants:
  "subtenants (subtenants_loop as st) = subtenants st @ map subtenant_of_account as"
  by (induction as arbitrary: st) simp_all

lemma subtenants_loop_frame:
  "security_zones (subtenants_loop as st) = security_zones st"
  "tenants (subtenants_loop as st) = tenants st"
  "network_domains (subtenants_loop as st) = network_domains st"
  "proposals (subtenants_loop as st) = proposals st"
  by (induction as arbitrary: st) simp_all

lemma map_basic_state:
  "security_zones (fst (map_basic self scan d)) = map zone_of_ou (get_list (organizational_units scan))"
  "subtenants (fst (map_basic self scan d)) = map subtenant_of_account (get_list (accounts scan))"
  "tenants (fst (map_basic self scan d)) = []"
  "network_domains (fst (map_basic self scan d)) = []"
  "proposals (fst (map_basic self scan d)) = generate_proposals (fst (map_basic self scan d)) scan"
  "snd (map_basic self scan d) = self\<lparr>p1_state := Some (fst (map_basic self scan d))\<rparr>"
  by (simp_all add: map_basic_def Let_def zones_loop_zones zones_loop_frame
      subtenants_loop_subtenants subtenants_loop_frame generate_proposals_def)

lemma example_hyps:
  "foundation_mapper example_env = None"
  "example_fs (scan_file example_mapper) = Some ''scan''"
  "json_load example_env ''scan'' = Some example_scan"
  "load_decisions example_env example_fs example_mapper = Inr ()"
  by (simp_all add: example_env_def example_fs_def example_mapper_def load_decisions_def)

lemma str_replace_examples:
  "str_replace ''ou-1'' ''ou-'' [] = ''1''"
  "str_replace ''ou-2'' ''ou-'' [] = ''2''"
  "str_replace ''ou-ou-1'' ''ou-'' [] = ''1''"
  "str_replace ''abc'' [] ''-'' = ''-a-b-c-''"
  by (simp_all add: str_replace_def)

section \<open>Phase 1: one zone per organizational unit, one subtenant per account\<close>

text \<open>
  C1. On the fallback path (the import of the foundation mapper fails), for a scan file that
  parses and decisions that load, \<open>run\<close> returns a state, stored in the object, with as
  many security zones as the scan has organizational units and as many subtenants as it has
  accounts; the zone at position \<open>i\<close> is the one built from the unit at position \<open>i\<close> and
  carries its id as \<open>source_ou_id\<close>, and the subtenant at position \<open>j\<close> is the one built
  from the account at position \<open>j\<close> and lists its id: the order of the input is kept.
\<close>

theorem run_basic_one_per_entry:
  assumes "foundation_mapper env = None"
    and "fs (scan_file self) = Some text"
    and "json_load env text = Some scan"
    and "load_decisions env fs self = Inr decisions"
  shows "\<exists>st. run env fs self = (Inr st, self\<lparr>p1_state := Some st\<rparr>)
    \<and> length (security_zones st) = length (get_list (organizational_units scan))
    \<and> length (subtenants st) = length (get_list (accounts scan))
    \<and> (\<forall>i < length (get_list (organizational_units scan)).
          security_zones st ! i = zone_of_ou (get_list (organizational_units scan) ! i)
          \<and> sz_source_ou_id (security_zones st ! i)
              = Some (ou_id (get_list (organizational_units scan) ! i)))
    \<and> (\<forall>j < length (get_list (accounts scan)).
          subtenants st ! j = subtenant_of_account (get_list (accounts scan) ! j)
          \<and> st_aws_accounts (subtenants st ! j) = [account_id (get_list (accounts scan) ! j)])"
proof -
  let ?st = "fst (map_basic self scan decisions)"
  have r: "run env fs self = (Inr ?st, self\<lparr>p1_state := Some ?st\<rparr>)"
    using assms map_basic_state(6) [of self scan decisions]
    by (simp add: run_def split_beta Let_def)
  show ?thesis
    apply (rule exI [of _ ?st])
    using r by (simp add: map_basic_state zone_of_ou_def subtenant_of_account_def)
qed

text \<open>The scenario of the specification satisfies the hypotheses.\<close>

theorem run_basic_one_per_entry_witness:
  "foundation_mapper example_env = None
   \<and> example_fs (scan_file example_mapper) = Some ''scan''
   \<and> json_load example_env ''scan'' = Some example_scan
   \<and> load_decisions example_env example_fs example_mapper = Inr ()
   \<and> (\<exists>st. run example_env example_fs example_mapper
               = (Inr st, example_mapper\<lparr>p1_state := Some st\<rparr>)
          \<and> map sz_id (security_zones st) = [''sz-1'', ''sz-2'']
          \<and> map sz_source_ou_id (security_zones st) = [Some ''ou-1'', Some ''ou-2'']
          \<and> map st_id (subtenants st) = [''st-111'', ''st-222'']
          \<and> map st_aws_accounts (subtenants st) = [[''111''], [''222'']])"
proof -
  from run_basic_one_per_entry [OF example_hyps]
  obtain st where run: "run example_env example_fs example_mapper
        = (Inr st, example_mapper\<lparr>p1_state := Some st\<rparr>)"
    and zones: "\<forall>i < length (get_list (organizational_units example_scan)).
          security_zones st ! i = zone_of_ou (get_list (organizational_units example_scan) ! i)
          \<and> sz_source_ou_id (security_zones st ! i)
              = Some (ou_id (get_list (organizational_units example_scan) ! i))"
    and nz: "length (security_zones st) = length (get_list (organizational_units example_scan))"
    and subs: "\<forall>j < length (get_list (accounts example_scan)).
          subtenants st ! j = subtenant_of_account (get_list (accounts example_scan) ! j)
          \<and> st_aws_accounts (subtenants st ! j) = [account_id (get_list (accounts example_scan) ! j)]"
    and ns: "length (subtenants st) = length (get_list (accounts example_scan))"
    by blast
  have z: "security_zones st = [zone_of_ou \<lparr>ou_id = ''ou-1'', ou_name = Some ''Prod''\<rparr>,
         zone_of_ou \<lparr>ou_id = ''ou-2'', ou_name = Some ''Dev''\<rparr>]"
    using zones nz by (simp add: example_scan_def get_list_def list_eq_iff_nth_eq less_Suc_eq)
  have s: "subtenants st = [subtenant_of_account \<lparr>account_id = ''111'', account_name = Some ''A''\<rparr>,
         subtenant_of_account \<lparr>account_id = ''222'', account_name = Some ''B''\<rparr>]"
    using subs ns by (simp add: example_scan_def get_list_def list_eq_iff_nth_eq less_Suc_eq)
  show ?thesis
    using run z s
    by (simp add: example_hyps zone_of_ou_def subtenant_of_account_def str_replace_examples)
qed

section \<open>Phase 1: the proposals\<close>

text \<open>
  C2. Among the generated proposals, those of type \<open>tenant_grouping\<close> are exactly one, pending
  and listing the id of every subtenant of the state, when the state has more than one
  subtenant, and none otherwise; those of type \<open>network_domain\<close> are exactly one, pending and
  listing the id of every VPC of the scan, when the scan lists at least one VPC, and none
  otherwise; there is no proposal of another type, so there are at most two. The state that
  \<open>_map_basic\<close> returns holds the proposals generated from itself, and its subtenant ids are
  the account ids with the prefix \<open>st-\<close>.
\<close>

theorem generate_proposals_at_most_two:
  "filter (\<lambda>p. p_type p = ''tenant_grouping'') (generate_proposals st scan) =
     (if 1 < length (subtenants st)
      then [\<lparr>p_id = None, p_type = ''tenant_grouping'',
             p_description = ''Group subtenants into logical tenants'',
             p_subtenants = Some (map st_id (subtenants st)),
             p_vpcs = None, p_status = ''pending''\<rparr>]
      else [])
   \<and> filter (\<lambda>p. p_type p = ''network_domain'') (generate_proposals st scan) =
     (if 1 \<le> length (get_list (vpcs scan))
      then [\<lparr>p_id = None, p_type = ''network_domain'',
             p_description =
               ''Create network domains from '' @
               str_of_nat (length (get_list (vpcs scan))) @ '' VPCs'',
             p_subtenants = None,
             p_vpcs = Some (map vpc_id (get_list (vpcs scan))), p_status = ''pending''\<rparr>]
      else [])
   \<and> filter (\<lambda>p. p_type p \<noteq> ''tenant_grouping'' \<and> p_type p \<noteq> ''network_domain'')
        (generate_proposals st scan) = []
   \<and> length (generate_proposals st scan) \<le> 2
   \<and> proposals (fst (map_basic self scan d)) = generate_proposals (fst (map_basic self scan d)) scan
   \<and> map st_id (subtenants (fst (map_basic self scan d)))
       = map (\<lambda>a. ''st-'' @ account_id a) (get_list (accounts scan))"
  by (cases "get_list (vpcs scan)")
     (simp_all add: generate_proposals_def Let_def map_basic_state subtenant_of_account_def)

text \<open>The scenario of the specification: both proposals, in this order.\<close>

theorem generate_proposals_scenario:
  "map (\<lambda>p. (p_type p, p_subtenants p, p_vpcs p, p_status p))
     (proposals (fst (map_basic example_mapper example_scan ())))
   = [(''tenant_grouping'', Some [''st-111'', ''st-222''], None, ''pending''),
      (''network_domain'', None, Some [''vpc-9''], ''pending'')]"
  using generate_proposals_at_most_two [of "fst (map_basic example_mapper example_scan ())" example_scan example_mapper "()"]
  by (simp add: map_basic_state generate_proposals_def example_scan_def get_list_def
      subtenant_of_account_def)

section \<open>Phase 2: accepting and rejecting\<close>

lemma phase2_server_init_loads:
  "phase2_server_init env dirs fs file = Inr self \<longleftrightarrow>
     (\<exists>text st. fs (path_of file) = Some text \<and> yaml_safe_load env text = Some st
        \<and> self = \<lparr>state_file = path_of file, state = st\<rparr>)"
  by (auto simp: phase2_server_init_def path_exists_def split: option.splits)

lemma proposal_loop_None:
  "proposal_loop pid new ps = None \<longleftrightarrow> (\<forall>p \<in> set ps. p_id p \<noteq> Some pid)"
  by (induction ps) auto

lemma proposal_loop_Some:
  assumes "\<exists>p \<in> set ps. p_id p = Some pid"
  shows "\<exists>i < length ps. p_id (ps ! i) = Some pid \<and> (\<forall>j < i. p_id (ps ! j) \<noteq> Some pid)
           \<and> (\<forall>new. proposal_loop pid new ps = Some (ps[i := (ps ! i)\<lparr>p_status := new\<rparr>]))"
  using assms
proof (induction ps)
  case Nil
  then show ?case by simp
next
  case (Cons p ps)
  show ?case
  proof (cases "p_id p = Some pid")
    case True
    then show ?thesis by (intro exI [of _ 0]) simp
  next
    case False
    with Cons.prems have "\<exists>q \<in> set ps. p_id q = Some pid" by auto
    from Cons.IH [OF this] obtain i where i: "i < length ps" "p_id (ps ! i) = Some pid"
      "\<forall>j < i. p_id (ps ! j) \<noteq> Some pid"
      "\<forall>new. proposal_loop pid new ps = Some (ps[i := (ps ! i)\<lparr>p_status := new\<rparr>])"
      by blast
    have "\<forall>j < Suc i. p_id ((p # ps) ! j) \<noteq> Some pid"
      using False i(3) by (auto simp: less_Suc_eq_0_disj)
    with i False show ?thesis by (intro exI [of _ "Suc i"]) simp
  qed
qed

text \<open>What a handler does to the list: nothing, or a new status at one position.\<close>

lemma proposal_loop_shape:
  "proposal_loop pid new ps = Some ps' \<Longrightarrow>
     \<exists>i < length ps. p_id (ps ! i) = Some pid \<and> ps' = ps[i := (ps ! i)\<lparr>p_status := new\<rparr>]"
  using proposal_loop_Some [of ps pid] proposal_loop_None [of pid new ps]
  by (cases "\<exists>p \<in> set ps. p_id p = Some pid") auto



section \<open>Phase 2: sequences of requests\<close>

lemma handle_cases:
  assumes "handle env self fs r = (resp, self', fs')"
  obtains (not_found) "resp = Proposal_not_found" "self' = self" "fs' = fs"
  | (found) pid new ps' where
      "r = Accept pid \<and> new = ''accepted'' \<or> r = Reject pid \<and> new = ''rejected''"
      "proposal_loop pid new (proposals (state self)) = Some ps'"
      "resp = Status_ok"
      "self' = self\<lparr>state := (state self)\<lparr>proposals := ps'\<rparr>\<rparr>"
proof (cases r)
  case (Accept pid)
  show ?thesis
  proof (cases "proposal_loop pid ''accepted'' (proposals (state self))")
    case None
    with assms [symmetric] Accept show ?thesis
      by (intro not_found) (simp_all add: accept_proposal_def)
  next
    case (Some ps')
    with assms [symmetric] Accept show ?thesis
      by (intro found [of pid "''accepted''" ps']) (simp_all add: accept_proposal_def Let_def)
  qed
next
  case (Reject pid)
  show ?thesis
  proof (cases "proposal_loop pid ''rejected'' (proposals (state self))")
    case None
    with assms [symmetric] Reject show ?thesis
      by (intro not_found) (simp_all add: reject_proposal_def)
  next
    case (Some ps')
    with assms [symmetric] Reject show ?thesis
      by (intro found [of pid "''rejected''" ps']) (simp_all add: reject_proposal_def Let_def)
  qed
qed

lemma handle_frame:
  assumes "handle env self fs r = (resp, self', fs')"
  shows "state_file self' = state_file self
    \<and> security_zones (state self') = security_zones (state self)
    \<and> tenants (state self') = tenants (state self)
    \<and> subtenants (state self') = subtenants (state self)
    \<and> network_domains (state self') = network_domains (state self)"
  using assms by (cases rule: handle_cases) simp_all

lemma handle_status:
  assumes "handle env self fs r = (resp, self', fs')"
  shows "list_all2 (\<lambda>p q. q = p\<lparr>p_status := p_status q\<rparr>
          \<and> (p_status q = p_status p \<or> p_status q = ''accepted'' \<or> p_status q = ''rejected''))
        (proposals (state self)) (proposals (state self'))"
  using assms
proof (cases rule: handle_cases)
  case not_found
  then show ?thesis by (simp add: list_all2_same)
next
  case (found pid new ps')
  from proposal_loop_shape [OF found(2)] obtain i where
    i: "i < length (proposals (state self))"
       "ps' = (proposals (state self))[i := (proposals (state self) ! i)\<lparr>p_status := new\<rparr>]"
    by blast
  have new: "new = ''accepted'' \<or> new = ''rejected''" using found(1) by auto
  have ps': "proposals (state self') = ps'" by (simp add: found(4))
  show ?thesis
    unfolding ps' i(2) using new i(1)
    by (auto simp: list_all2_conv_all_nth nth_list_update)
qed

lemma serve_Cons:
  assumes "serve env self fs (r # rs) = (resps, self', fs')"
  obtains resp self1 fs1 resps1 where "handle env self fs r = (resp, self1, fs1)"
    and "serve env self1 fs1 rs = (resps1, self', fs')" and "resps = resp # resps1"
  using assms by (auto split: prod.splits)

lemma serve_frame:
  "serve env self fs rs = (resps, self', fs') \<Longrightarrow>
   state_file self' = state_file self
   \<and> security_zones (state self') = security_zones (state self)
   \<and> tenants (state self') = tenants (state self)
   \<and> subtenants (state self') = subtenants (state self)
   \<and> network_domains (state self') = network_domains (state self)"
proof (induction rs arbitrary: self fs resps)
  case Nil
  then show ?case by simp
next
  case (Cons r rs)
  from Cons.prems obtain resp self1 fs1 resps1 where
    h: "handle env self fs r = (resp, self1, fs1)"
    and s: "serve env self1 fs1 rs = (resps1, self', fs')"
    by (rule serve_Cons)
  from handle_frame [OF h] Cons.IH [OF s] show ?case by metis
qed

lemma status_step_trans:
  fixes p q r :: proposal
  assumes "q = p\<lparr>p_status := p_status q\<rparr>
          \<and> (p_status q = p_status p \<or> p_status q = ''accepted'' \<or> p_status q = ''rejected'')"
    and "r = q\<lparr>p_status := p_status r\<rparr>
          \<and> (p_status r = p_status q \<or> p_status r = ''accepted'' \<or> p_status r = ''rejected'')"
  shows "r = p\<lparr>p_status := p_status r\<rparr>
          \<and> (p_status r = p_status p \<or> p_status r = ''accepted'' \<or> p_status r = ''rejected'')"
proof -
  obtain s where q: "q = p\<lparr>p_status := s\<rparr>" using assms(1) by blast
  obtain t where r: "r = q\<lparr>p_status := t\<rparr>" using assms(2) by blast
  have st: "p_status q = s" "p_status r = t" by (simp_all add: q r)
  have "r = p\<lparr>p_status := p_status r\<rparr>" by (simp add: q r)
  moreover have "p_status r = p_status p \<or> p_status r = ''accepted'' \<or> p_status r = ''rejected''"
    using assms(1) assms(2) unfolding st by metis
  ultimately show ?thesis by blast
qed

lemma serve_status:
  "serve env self fs rs = (resps, self', fs') \<Longrightarrow>
   list_all2 (\<lambda>p q. q = p\<lparr>p_status := p_status q\<rparr>
          \<and> (p_status q = p_status p \<or> p_status q = ''accepted'' \<or> p_status q = ''rejected''))
        (proposals (state self)) (proposals (state self'))"
proof (induction rs arbitrary: self fs resps)
  case Nil
  then show ?case by (simp add: list_all2_same)
next
  case (Cons r rs)
  from Cons.prems obtain resp self1 fs1 resps1 where
    h: "handle env self fs r = (resp, self1, fs1)"
    and s: "serve env self1 fs1 rs = (resps1, self', fs')"
    by (rule serve_Cons)
  show ?case
    by (rule list_all2_trans [OF _ handle_status [OF h] Cons.IH [OF s]])
       (rule status_step_trans)
qed

lemma serve_without_ids:
  "\<forall>p \<in> set (proposals (state self)). p_id p = None \<Longrightarrow>
   serve env self fs rs = (replicate (length rs) Proposal_not_found, self, fs)"
proof (induction rs)
  case Nil
  then show ?case by simp
next
  case (Cons r rs)
  have "\<And>pid new. proposal_loop pid new (proposals (state self)) = None"
    using Cons.prems by (simp add: proposal_loop_None)
  then have "handle env self fs r = (Proposal_not_found, self, fs)"
    by (cases r) (simp_all add: accept_proposal_def reject_proposal_def)
  with Cons show ?case by simp
qed

lemma generate_proposals_no_id:
  "\<forall>p \<in> set (generate_proposals st scan). p_id p = None"
  by (simp add: generate_proposals_def Let_def)

text \<open>
  C4, as stated, fails: on the example server, the proposal \<open>p1\<close> is accepted by the first
  request and rejected by the second, so an accepted status was changed.
\<close>

theorem accepted_then_rejected:
  "map p_status (proposals (state (fst (snd
      (serve example_env example_server example_fs [Accept ''p1''])))))
     = [''pending'', ''accepted'']
   \<and> map p_status (proposals (state (fst (snd
      (serve example_env example_server example_fs [Accept ''p1'', Reject ''p1''])))))
     = [''pending'', ''rejected'']"
  by (simp add: accept_proposal_def reject_proposal_def example_server_def
      example_proposals_def p2_save_state_def)

text \<open>
  C4, amended. After any sequence of accept and reject requests the state has the same
  proposals at the same positions, each with its fields unchanged but for the status; the
  status is the one it had, \<open>accepted\<close> or \<open>rejected\<close>. So a pending proposal is pending,
  accepted or rejected, and a proposal that was accepted or rejected is accepted or rejected:
  a decision is never undone to \<open>pending\<close>, but each request for an id that is present
  overwrites the status, also that of a decided proposal.
\<close>

theorem status_only_overwritten_by_decisions:
  assumes "serve env self fs rs = (resps, self', fs')"
  shows "length (proposals (state self')) = length (proposals (state self))
    \<and> (\<forall>i < length (proposals (state self)).
         (let p = proposals (state self) ! i; q = proposals (state self') ! i
          in q = p\<lparr>p_status := p_status q\<rparr>
             \<and> (p_status q = p_status p \<or> p_status q = ''accepted'' \<or> p_status q = ''rejected'')
             \<and> (p_status p = ''pending'' \<longrightarrow>
                  p_status q = ''pending'' \<or> p_status q = ''accepted'' \<or> p_status q = ''rejected'')
             \<and> (p_status p = ''accepted'' \<or> p_status p = ''rejected'' \<longrightarrow>
                  p_status q = ''accepted'' \<or> p_status q = ''rejected'')))"
  using serve_status [OF assms]
  by (auto simp: list_all2_conv_all_nth Let_def)

lemma example_serve:
  "serve example_env example_server example_fs [Accept ''p1'', Reject ''p1''] =
     ([Status_ok, Status_ok],
      example_server\<lparr>state := (state example_server)\<lparr>proposals :=
         [example_proposals ! 0, (example_proposals ! 1)\<lparr>p_status := ''rejected''\<rparr>]\<rparr>\<rparr>,
      example_fs([''state.yaml''] \<mapsto> ''pendingrejected''))"
  by (simp add: accept_proposal_def reject_proposal_def example_server_def
      example_proposals_def p2_save_state_def example_env_def)

theorem status_only_overwritten_by_decisions_witness:
  "serve example_env example_server example_fs [Accept ''p1'', Reject ''p1''] =
     ([Status_ok, Status_ok],
      example_server\<lparr>state := (state example_server)\<lparr>proposals :=
         [example_proposals ! 0, (example_proposals ! 1)\<lparr>p_status := ''rejected''\<rparr>]\<rparr>\<rparr>,
      example_fs([''state.yaml''] \<mapsto> ''pendingrejected''))
   \<and> map p_status (proposals (state example_server)) = [''pending'', ''pending'']
   \<and> map p_status [example_proposals ! 0, (example_proposals ! 1)\<lparr>p_status := ''rejected''\<rparr>]
       = [''pending'', ''rejected'']"
proof -
  note t = status_only_overwritten_by_decisions [OF example_serve]
  have a: "map p_status (proposals (state example_server)) = [''pending'', ''pending'']"
    by (simp add: example_server_def example_proposals_def)
  have b: "map p_status
             [example_proposals ! 0, (example_proposals ! 1)\<lparr>p_status := ''rejected''\<rparr>]
           = [''pending'', ''rejected'']"
    by (simp add: example_proposals_def)
  from t example_serve a b show ?thesis by blast
qed

section \<open>Phase 1 proposals in Phase 2\<close>

text \<open>
  C10. No generated proposal has an \<open>id\<close> key. So on a server whose state is one that
  \<open>_map_basic\<close> returned, every accept and every reject request, whatever its id, gets the
  not-found response and leaves the object and the file system unchanged, and so does every
  sequence of such requests.
\<close>

theorem generated_proposals_are_never_found:
  "(\<forall>p \<in> set (generate_proposals st scan). p_id p = None)
   \<and> (state self = fst (map_basic mapper scan d) \<longrightarrow>
        accept_proposal env self fs pid = (Proposal_not_found, self, fs)
        \<and> reject_proposal env self fs pid = (Proposal_not_found, self, fs)
        \<and> serve env self fs rs = (replicate (length rs) Proposal_not_found, self, fs))"
proof (intro conjI impI)
  show "\<forall>p \<in> set (generate_proposals st scan). p_id p = None"
    by (rule generate_proposals_no_id)
next
  assume s: "state self = fst (map_basic mapper scan d)"
  have none: "\<forall>p \<in> set (proposals (state self)). p_id p = None"
    unfolding s map_basic_state(5) by (rule generate_proposals_no_id)
  then have "\<And>new. proposal_loop pid new (proposals (state self)) = None"
    by (simp add: proposal_loop_None)
  then show "accept_proposal env self fs pid = (Proposal_not_found, self, fs)"
    and "reject_proposal env self fs pid = (Proposal_not_found, self, fs)"
    by (simp_all add: accept_proposal_def reject_proposal_def)
  show "serve env self fs rs = (replicate (length rs) Proposal_not_found, self, fs)"
    using none by (rule serve_without_ids)
qed

text \<open>The scenario: the two generated proposals, and requests that name their types.\<close>

theorem generated_proposals_are_never_found_witness:
  "map p_id (generate_proposals (fst (map_basic example_mapper example_scan ())) example_scan)
     = [None, None]
   \<and> accept_proposal example_env
        \<lparr>state_file = [''state.yaml''], state = fst (map_basic example_mapper example_scan ())\<rparr>
        example_fs ''tenant_grouping''
      = (Proposal_not_found,
         \<lparr>state_file = [''state.yaml''], state = fst (map_basic example_mapper example_scan ())\<rparr>,
         example_fs)
   \<and> serve example_env
        \<lparr>state_file = [''state.yaml''], state = fst (map_basic example_mapper example_scan ())\<rparr>
        example_fs [Accept ''tenant_grouping'', Reject ''network_domain'']
      = ([Proposal_not_found, Proposal_not_found],
         \<lparr>state_file = [''state.yaml''], state = fst (map_basic example_mapper example_scan ())\<rparr>,
         example_fs)"
proof -
  let ?srv = "\<lparr>state_file = [''state.yaml''],
                state = fst (map_basic example_mapper example_scan ())\<rparr>"
  have s: "state ?srv = fst (map_basic example_mapper example_scan ())"
    by simp
  note t = generated_proposals_are_never_found [of
      "fst (map_basic example_mapper example_scan ())" example_scan ?srv
      example_mapper "()" example_env example_fs "''tenant_grouping''"
      "[Accept ''tenant_grouping'', Reject ''network_domain'']"]
  from t [THEN conjunct2, THEN mp, OF s]
  have "accept_proposal example_env ?srv example_fs ''tenant_grouping''
          = (Proposal_not_found, ?srv, example_fs)"
    and "serve example_env ?srv example_fs [Accept ''tenant_grouping'', Reject ''network_domain'']
          = ([Proposal_not_found, Proposal_not_found], ?srv, example_fs)"
    by (simp_all del: serve.simps)
  moreover
  have "map p_id (generate_proposals (fst (map_basic example_mapper example_scan ())) example_scan)
          = [None, None]"
    by (simp add: generate_proposals_def map_basic_state example_scan_def get_list_def)
  ultimately show ?thesis by blast
qed

section \<open>AnalystQuery: which path a text takes\<close>

lemma get_driver_calls:
  "get_driver connect self = Inr (d, self') \<Longrightarrow> calls self' = calls self \<and> config self' = config self"
  by (auto simp: get_driver_def split: option.splits sum.splits)

lemma execute_cypher_calls:
  "calls (snd (execute_cypher connect self cypher)) = calls self @ [Execute_cypher cypher]"
  by (auto simp: execute_cypher_def Let_def dest!: get_driver_calls split: sum.splits)

lemma execute_cypher_result:
  assumes "fst (execute_cypher connect self cypher) = Inr r"
  shows "r ''cypher'' = Some (Str cypher)"
    and "\<exists>rows. r ''data'' = Some (Rows rows)"
    and "(\<exists>x. r ''explanation'' = Some (Str x)) \<or> (\<exists>m. r ''error'' = Some (Str m))"
  using assms
  by (auto simp: execute_cypher_def Let_def split: sum.splits)

lemma try_llm_falls_through:
  "\<exists>self'. try_llm connect self question = (Fall_through, self')
      \<and> (calls self' = calls self \<or> calls self' = calls self @ [Translate_with_llm question])"
  by (simp add: try_llm_def translate_with_llm_def)

lemma is_cypher_iff:
  "is_cypher py question \<longleftrightarrow>
     (\<exists>kw \<in> set [''MATCH'', ''RETURN'', ''CREATE'', ''MERGE'', ''DELETE'', ''CALL'', ''WITH''].
        prefix kw (py_upper py (py_strip py question)))"
  unfolding is_cypher_def cypher_keywords_def list_ex_iff ..

lemma snd_with_question:
  "snd (case x of
          (Inr result, self3) \<Rightarrow> (Inr (result(''original_question'' \<mapsto> Str q)), self3)
        | (Inl e, self3) \<Rightarrow> (Inl e, self3)) = snd x"
  by (auto split: prod.splits sum.splits)

lemma natural_language_calls:
  assumes "try_llm connect self question = (Fall_through, self1)"
  shows "calls (snd (execute_natural_language py connect self question)) =
     calls self1 @ Translate_basic question #
       (case patterns_loop patterns (py_lower py question) of
          None \<Rightarrow> []
        | Some c \<Rightarrow> if c = [] then [] else [Execute_cypher c])"
  by (simp add: execute_natural_language_def assms translate_basic_def snd_with_question
      execute_cypher_calls split: option.splits)

lemma natural_language_first_call:
  "\<exists>rest. calls (snd (execute_natural_language py connect self question))
      = calls self @ Translate_with_llm question # rest
    \<or> calls (snd (execute_natural_language py connect self question))
      = calls self @ Translate_basic question # rest"
proof -
  obtain self1 where t: "try_llm connect self question = (Fall_through, self1)"
    and c: "calls self1 = calls self \<or> calls self1 = calls self @ [Translate_with_llm question]"
    using try_llm_falls_through by blast
  from c show ?thesis
    unfolding natural_language_calls [OF t] by auto
qed

text \<open>
  C5. Whatever Python's \<open>strip\<close> and \<open>upper\<close> do to a text: a text that, stripped and in
  upper case, starts with one of the seven keywords is handled by \<open>_execute_cypher\<close> with the
  text as it is: the result and the object are those of that call, a result dictionary names
  the text itself as the query, and the only method of the three that is called is
  \<open>_execute_cypher\<close>, on the text; no translation is called. Any other text is handled by
  \<open>_execute_natural_language\<close>, whose first call is a translation of the text.
\<close>

theorem keyword_text_is_executed_verbatim:
  "((\<exists>kw \<in> set [''MATCH'', ''RETURN'', ''CREATE'', ''MERGE'', ''DELETE'', ''CALL'', ''WITH''].
        prefix kw (py_upper py (py_strip py question))) \<longrightarrow>
      execute py connect self question = execute_cypher connect self question
      \<and> calls (snd (execute py connect self question)) = calls self @ [Execute_cypher question]
      \<and> (\<forall>r. fst (execute py connect self question) = Inr r \<longrightarrow>
            r ''cypher'' = Some (Str question)))
   \<and> (\<not> (\<exists>kw \<in> set [''MATCH'', ''RETURN'', ''CREATE'', ''MERGE'', ''DELETE'', ''CALL'', ''WITH''].
        prefix kw (py_upper py (py_strip py question))) \<longrightarrow>
      execute py connect self question = execute_natural_language py connect self question
      \<and> (\<exists>rest. calls (snd (execute py connect self question))
                   = calls self @ Translate_with_llm question # rest
                \<or> calls (snd (execute py connect self question))
                   = calls self @ Translate_basic question # rest))"
proof (cases "is_cypher py question")
  case True
  then have "execute py connect self question = execute_cypher connect self question"
    by (simp add: execute_def)
  with True show ?thesis
    unfolding is_cypher_iff [symmetric]
    by (simp add: execute_cypher_calls execute_cypher_result(1))
next
  case False
  then have "execute py connect self question = execute_natural_language py connect self question"
    by (simp add: execute_def)
  with False natural_language_first_call [of py connect self question] show ?thesis
    unfolding is_cypher_iff [symmetric] by simp
qed

lemma example_is_cypher:
  "\<exists>kw \<in> set [''MATCH'', ''RETURN'', ''CREATE'', ''MERGE'', ''DELETE'', ''CALL'', ''WITH''].
        prefix kw (py_upper on_ascii (py_strip on_ascii ''  match (n) return n''))"
  "\<not> (\<exists>kw \<in> set [''MATCH'', ''RETURN'', ''CREATE'', ''MERGE'', ''DELETE'', ''CALL'', ''WITH''].
        prefix kw (py_upper on_ascii (py_strip on_ascii ''Show all accounts'')))"
  by code_simp+

lemma example_calls:
  "calls (snd (execute on_ascii one_row example_analyst ''  match (n) return n''))
     = [Execute_cypher ''  match (n) return n'']"
  "calls (snd (execute on_ascii one_row example_analyst ''Show all accounts''))
     = [Translate_basic ''Show all accounts'',
        Execute_cypher ''MATCH (a:AWSAccount) RETURN a.name as name, a.id as id LIMIT 50'']"
  by code_simp+

text \<open>A query in lower case behind two spaces, and a question.\<close>

theorem keyword_text_is_executed_verbatim_witness:
  "(\<exists>kw \<in> set [''MATCH'', ''RETURN'', ''CREATE'', ''MERGE'', ''DELETE'', ''CALL'', ''WITH''].
        prefix kw (py_upper on_ascii (py_strip on_ascii ''  match (n) return n'')))
   \<and> execute on_ascii one_row example_analyst ''  match (n) return n''
       = execute_cypher one_row example_analyst ''  match (n) return n''
   \<and> calls (snd (execute on_ascii one_row example_analyst ''  match (n) return n''))
       = [Execute_cypher ''  match (n) return n'']
   \<and> \<not> (\<exists>kw \<in> set [''MATCH'', ''RETURN'', ''CREATE'', ''MERGE'', ''DELETE'', ''CALL'', ''WITH''].
        prefix kw (py_upper on_ascii (py_strip on_ascii ''Show all accounts'')))
   \<and> execute on_ascii one_row example_analyst ''Show all accounts''
       = execute_natural_language on_ascii one_row example_analyst ''Show all accounts''
   \<and> calls (snd (execute on_ascii one_row example_analyst ''Show all accounts''))
       = [Translate_basic ''Show all accounts'',
          Execute_cypher ''MATCH (a:AWSAccount) RETURN a.name as name, a.id as id LIMIT 50'']"
proof -
  note a = keyword_text_is_executed_verbatim
      [of on_ascii "''  match (n) return n''" one_row example_analyst, THEN conjunct1, THEN mp,
       OF example_is_cypher(1)]
  note b = keyword_text_is_executed_verbatim
      [of on_ascii "''Show all accounts''" one_row example_analyst, THEN conjunct2, THEN mp,
       OF example_is_cypher(2)]
  from a b example_is_cypher example_calls show ?thesis by blast
qed

section \<open>AnalystQuery: exceptions of the database\<close>

text \<open>
  C6, as stated, fails: when \<open>GraphDatabase.driver\<close> raises, \<open>_execute_cypher\<close> and
  \<open>execute\<close> raise the same exception instead of returning a dictionary.
\<close>

theorem driver_exception_propagates:
  "fst (execute_cypher bad_uri example_analyst ''RETURN 1'')
     = Inl (Exception ''URI scheme http is not supported'')
   \<and> fst (execute on_ascii bad_uri example_analyst ''RETURN 1'')
     = Inl (Exception ''URI scheme http is not supported'')"
proof -
  have "is_cypher on_ascii ''RETURN 1''" by code_simp
  then show ?thesis
    by (simp add: execute_def execute_cypher_def get_driver_def bad_uri_def example_analyst_def)
qed

text \<open>
  C6, amended. Once the object holds a driver, or \<open>GraphDatabase.driver\<close> returns one,
  \<open>_execute_cypher\<close> returns a dictionary for every query and every behaviour of that driver
  and its session: when \<open>driver.session()\<close> raises, or the session raises on the query, the
  dictionary holds the query, an empty data list and the message of the exception, and
  nothing else. An exception raised while the driver is created, which happens before the
  \<open>try\<close>, leaves the method.
\<close>

theorem session_exceptions_are_caught:
  "(driver self = Some d \<or> driver self = None \<and> connect = Inr d \<longrightarrow>
      (\<exists>r. fst (execute_cypher connect self cypher) = Inr r
         \<and> (\<forall>e. d = Inl e \<or> (\<exists>session. d = Inr session \<and> session cypher = Inl e) \<longrightarrow>
               r = [''cypher'' \<mapsto> Str cypher, ''data'' \<mapsto> Rows [],
                    ''error'' \<mapsto> Str (str_of_exn e)])))
   \<and> (driver self = None \<and> connect = Inl e' \<longrightarrow>
        fst (execute_cypher connect self cypher) = Inl e')"
  by (auto simp: execute_cypher_def get_driver_def Let_def split: sum.splits option.splits)

lemma example_failing_session:
  "driver example_analyst = None \<and> failing_session = Inr (Inr (\<lambda>cypher. Inl (Exception ''Query failed'')))"
  "driver example_analyst = None \<and> bad_uri = Inl (Exception ''URI scheme http is not supported'')"
  by (simp_all add: example_analyst_def failing_session_def bad_uri_def)

theorem session_exceptions_are_caught_witness:
  "driver example_analyst = None
   \<and> failing_session = Inr (Inr (\<lambda>cypher. Inl (Exception ''Query failed'')))
   \<and> fst (execute_cypher failing_session example_analyst ''RETURN 1'')
       = Inr [''cypher'' \<mapsto> Str ''RETURN 1'', ''data'' \<mapsto> Rows [],
              ''error'' \<mapsto> Str ''Query failed'']
   \<and> bad_uri = Inl (Exception ''URI scheme http is not supported'')
   \<and> fst (execute_cypher bad_uri example_analyst ''RETURN 1'')
       = Inl (Exception ''URI scheme http is not supported'')"
proof -
  note t = session_exceptions_are_caught
      [of example_analyst "Inr (\<lambda>cypher. Inl (Exception ''Query failed''))" failing_session
          "''RETURN 1''"]
  from t [THEN conjunct1] example_failing_session(1)
  obtain r where r: "fst (execute_cypher failing_session example_analyst ''RETURN 1'') = Inr r"
    and e: "\<forall>e. (Inr (\<lambda>cypher. Inl (Exception ''Query failed'')) :: unit driver) = Inl e
            \<or> (\<exists>session. (Inr (\<lambda>cypher. Inl (Exception ''Query failed'')) :: unit driver)
                    = Inr session \<and> session ''RETURN 1'' = Inl e) \<longrightarrow>
          r = [''cypher'' \<mapsto> Str ''RETURN 1'', ''data'' \<mapsto> Rows [],
               ''error'' \<mapsto> Str (str_of_exn e)]"
    by blast
  from e [rule_format, of "Exception ''Query failed''"]
  have "r = [''cypher'' \<mapsto> Str ''RETURN 1'', ''data'' \<mapsto> Rows [],
             ''error'' \<mapsto> Str ''Query failed'']"
    by simp
  with r have a: "fst (execute_cypher failing_session example_analyst ''RETURN 1'')
       = Inr [''cypher'' \<mapsto> Str ''RETURN 1'', ''data'' \<mapsto> Rows [],
              ''error'' \<mapsto> Str ''Query failed'']"
    by simp
  note u = session_exceptions_are_caught
      [of example_analyst undefined bad_uri "''RETURN 1''" "Exception ''URI scheme http is not supported''",
       THEN conjunct2, THEN mp, OF example_failing_session(2)]
  from a u example_failing_session show ?thesis by blast
qed

section \<open>AnalystQuery: the shape of a result\<close>

lemma patterns_loop_in:
  "patterns_loop ps q = Some c \<Longrightarrow> c \<in> snd ` set ps"
  by (induction ps q rule: patterns_loop.induct) (auto split: if_splits)

lemma no_translation_shape:
  "no_translation question ''cypher'' = Some Null"
  "no_translation question ''data'' = Some (Rows [])"
  "no_translation question ''error'' =
     Some (Str (''Could not translate question to Cypher. '' @
                ''LLM integration required for natural language queries.''))"
  by (simp_all add: no_translation_def)

lemma natural_language_result:
  assumes "fst (execute_natural_language py connect self question) = Inr r"
  shows "(r ''cypher'' = Some Null \<and> patterns_loop patterns (py_lower py question) \<in> {None, Some []}
          \<or> (\<exists>c \<in> snd ` set patterns. r ''cypher'' = Some (Str c)))
    \<and> (\<exists>rows. r ''data'' = Some (Rows rows))
    \<and> ((\<exists>x. r ''explanation'' = Some (Str x)) \<or> (\<exists>m. r ''error'' = Some (Str m)))"
proof -
  obtain self1 where t: "try_llm connect self question = (Fall_through, self1)"
    using try_llm_falls_through by blast
  show ?thesis
  proof (cases "patterns_loop patterns (py_lower py question)")
    case None
    with assms t have "r = no_translation question"
      by (simp add: execute_natural_language_def translate_basic_def)
    with None show ?thesis by (simp add: no_translation_shape)
  next
    case (Some c)
    show ?thesis
    proof (cases "c = []")
      case True
      with assms t Some have "r = no_translation question"
        by (simp add: execute_natural_language_def translate_basic_def)
      with Some True show ?thesis by (simp add: no_translation_shape)
    next
      case False
      let ?self2 = "self1\<lparr>calls := calls self1 @ [Translate_basic question]\<rparr>"
      from assms t Some False obtain r0 where
        r0: "fst (execute_cypher connect ?self2 c) = Inr r0"
        and r: "r = r0(''original_question'' \<mapsto> Str question)"
        by (auto simp: execute_natural_language_def translate_basic_def
            split: prod.splits sum.splits)
      from execute_cypher_result [OF r0] patterns_loop_in [OF Some] show ?thesis
        unfolding r by auto
    qed
  qed
qed

lemma patterns_loop_None_iff:
  "patterns_loop ps q = None \<longleftrightarrow>
     (\<forall>(keywords, cypher) \<in> set ps. \<forall>kw \<in> set keywords. \<not> str_contains kw q)"
  by (induction ps q rule: patterns_loop.induct) (auto simp: list_ex_iff)

text \<open>
  C7. Every dictionary that \<open>execute\<close> returns has the key \<open>cypher\<close>, with the text of the
  query that was run (the text given or a query of the table) or null, the key \<open>data\<close> with
  a list of rows, and an \<open>explanation\<close> or an \<open>error\<close>. A question is a text for the
  natural-language path, the one that \<open>execute\<close> does not take for a graph query and hands to
  \<open>_execute_natural_language\<close>. When no keyword of any keyword set of the table occurs in the
  lowercased text and no LLM is configured, \<open>_execute_natural_language\<close> returns the dictionary
  with a null query, no rows and the error message, and so does \<open>execute\<close> for every text
  that it does not take for a graph query.
\<close>

theorem result_has_query_data_and_outcome:
  "(fst (execute py connect self question) = Inr r \<longrightarrow>
      (r ''cypher'' = Some Null \<or> r ''cypher'' = Some (Str question)
         \<or> (\<exists>c \<in> snd ` set patterns. r ''cypher'' = Some (Str c)))
      \<and> (\<exists>rows. r ''data'' = Some (Rows rows))
      \<and> ((\<exists>x. r ''explanation'' = Some (Str x)) \<or> (\<exists>m. r ''error'' = Some (Str m))))
   \<and> ((\<forall>(keywords, cypher) \<in> set patterns.
          \<forall>kw \<in> set keywords. \<not> str_contains kw (py_lower py question))
        \<and> (config self = None \<or> config self = Some ''disabled'') \<longrightarrow>
        fst (execute_natural_language py connect self question) = Inr (no_translation question)
        \<and> (\<not> is_cypher py question \<longrightarrow>
              fst (execute py connect self question) = Inr (no_translation question))
        \<and> no_translation question ''cypher'' = Some (Null :: 'a val)
        \<and> no_translation question ''data'' = Some (Rows [] :: 'a val)
        \<and> (\<exists>m. no_translation question ''error'' = Some (Str m :: 'a val)))"
proof (intro conjI impI)
  assume r: "fst (execute py connect self question) = Inr r"
  show "r ''cypher'' = Some Null \<or> r ''cypher'' = Some (Str question)
         \<or> (\<exists>c \<in> snd ` set patterns. r ''cypher'' = Some (Str c))"
    and "\<exists>rows. r ''data'' = Some (Rows rows)"
    and "(\<exists>x. r ''explanation'' = Some (Str x)) \<or> (\<exists>m. r ''error'' = Some (Str m))"
    using r execute_cypher_result [of connect self question r]
      natural_language_result [of py connect self question r]
    by (cases "is_cypher py question"; simp add: execute_def; blast)+
next
  assume h: "(\<forall>(keywords, cypher) \<in> set patterns.
          \<forall>kw \<in> set keywords. \<not> str_contains kw (py_lower py question))
        \<and> (config self = None \<or> config self = Some ''disabled'')"
  then have none: "patterns_loop patterns (py_lower py question) = None"
    by (simp add: patterns_loop_None_iff)
  from h have "try_llm connect self question = (Fall_through, self)"
    by (auto simp: try_llm_def)
  with none show nl: "fst (execute_natural_language py connect self question)
      = Inr (no_translation question)"
    by (simp add: execute_natural_language_def translate_basic_def)
  assume "\<not> is_cypher py question"
  with nl show "fst (execute py connect self question) = Inr (no_translation question)"
    by (simp add: execute_def)
qed (simp_all add: no_translation_shape)

lemma example_question:
  "\<not> is_cypher on_ascii ''Show all accounts''"
  "patterns_loop patterns (py_lower on_ascii ''Show all accounts'')
     = Some ''MATCH (a:AWSAccount) RETURN a.name as name, a.id as id LIMIT 50''"
  "str_of_nat (Suc 0) = ''1''"
  "\<not> is_cypher on_ascii ''What is the weather?''"
  "patterns_loop patterns (py_lower on_ascii ''What is the weather?'') = None"
  by code_simp+

lemma example_answer:
  "fst (execute on_ascii one_row example_analyst ''Show all accounts'') =
     Inr [''cypher'' \<mapsto> Str ''MATCH (a:AWSAccount) RETURN a.name as name, a.id as id LIMIT 50'',
          ''data'' \<mapsto> Rows [()],
          ''explanation'' \<mapsto> Str ''Executed Cypher query, returned 1 results.'',
          ''original_question'' \<mapsto> Str ''Show all accounts'']"
  by (simp add: execute_def example_question execute_natural_language_def try_llm_def
      example_analyst_def translate_basic_def execute_cypher_def get_driver_def one_row_def)

text \<open>
  The scenario of the specification, \<open>Show all accounts\<close> without an LLM, and a question that
  the table does not cover.
\<close>

theorem result_has_query_data_and_outcome_witness:
  "fst (execute on_ascii one_row example_analyst ''Show all accounts'') =
     Inr [''cypher'' \<mapsto> Str ''MATCH (a:AWSAccount) RETURN a.name as name, a.id as id LIMIT 50'',
          ''data'' \<mapsto> Rows [()],
          ''explanation'' \<mapsto> Str ''Executed Cypher query, returned 1 results.'',
          ''original_question'' \<mapsto> Str ''Show all accounts'']
   \<and> patterns_loop patterns (py_lower on_ascii ''What is the weather?'') = None
   \<and> config example_analyst = None
   \<and> fst (execute_natural_language on_ascii one_row example_analyst ''What is the weather?'')
       = Inr (no_translation ''What is the weather?'')
   \<and> \<not> is_cypher on_ascii ''What is the weather?''
   \<and> fst (execute on_ascii one_row example_analyst ''What is the weather?'')
       = Inr (no_translation ''What is the weather?'')
   \<and> (no_translation ''What is the weather?'' :: unit result) ''data'' = Some (Rows [])"
proof -
  have c: "config example_analyst = None" by (simp add: example_analyst_def)
  have h: "(\<forall>(keywords, cypher) \<in> set patterns.
          \<forall>kw \<in> set keywords. \<not> str_contains kw (py_lower on_ascii ''What is the weather?''))
        \<and> (config example_analyst = None \<or> config example_analyst = Some ''disabled'')"
    using example_question(5) c by (simp add: patterns_loop_None_iff)
  note a = result_has_query_data_and_outcome
      [of on_ascii one_row example_analyst "''Show all accounts''", THEN conjunct1, THEN mp,
       OF example_answer]
  note b = result_has_query_data_and_outcome
      [of on_ascii one_row example_analyst "''What is the weather?''", THEN conjunct2, THEN mp,
       OF h]
  from b example_question(4)
  have "fst (execute_natural_language on_ascii one_row example_analyst ''What is the weather?'')
          = Inr (no_translation ''What is the weather?'')
        \<and> fst (execute on_ascii one_row example_analyst ''What is the weather?'')
          = Inr (no_translation ''What is the weather?'')
        \<and> (no_translation ''What is the weather?'' :: unit result) ''data'' = Some (Rows [])"
    by blast
  with a example_answer example_question(4,5) c show ?thesis by blast
qed

section \<open>Paths and directories\<close>

lemma path_of_examples:
  "path_of [] = []" "path_of ''.'' = []" "path_of ''./.'' = []"
  "path_of ''a//b/'' = [''a'', ''b'']" "path_of ''./a/./b'' = [''a'', ''b'']"
  "path_of ''/'' = [''/'']" "path_of ''/a'' = [''/'', ''a'']"
  "path_of ''//a'' = [''//'', ''a'']" "path_of ''///a'' = [''/'', ''a'']"
  "path_of ''a/..'' = [''a'', ''..'']"
  "parent [''a'', ''b''] = [''a'']" "parent [''a''] = []" "parent [] = []"
  "parent [''/''] = [''/'']" "parent [''/'', ''a''] = [''/'']"
  by (simp_all add: path_of_def parent_def)

lemma is_dir_insert: "is_dir dirs p \<Longrightarrow> is_dir (insert q dirs) p"
  by (auto simp: is_dir_def)

lemma is_dir_mono: "dirs \<subseteq> dirs' \<Longrightarrow> is_dir dirs p \<Longrightarrow> is_dir dirs' p"
  by (auto simp: is_dir_def)

lemma mkdirs_creates:
  "\<forall>q \<in> set qs. is_dir dirs q \<or> fs q = None \<Longrightarrow>
   \<exists>dirs'. mkdirs dirs fs qs = Inr dirs' \<and> dirs \<subseteq> dirs' \<and> dirs' \<subseteq> dirs \<union> set qs
      \<and> (\<forall>q \<in> set qs. is_dir dirs' q)"
proof (induction qs arbitrary: dirs)
  case Nil
  then show ?case by simp
next
  case (Cons q qs)
  show ?case
  proof (cases "is_dir dirs q")
    case True
    from Cons.prems have "\<forall>r \<in> set qs. is_dir dirs r \<or> fs r = None" by simp
    from Cons.IH [OF this] obtain dirs' where d: "mkdirs dirs fs qs = Inr dirs'"
      "dirs \<subseteq> dirs'" "dirs' \<subseteq> dirs \<union> set qs" "\<forall>r \<in> set qs. is_dir dirs' r"
      by blast
    from True d(2) have "is_dir dirs' q" by (rule is_dir_mono [rotated])
    with True d show ?thesis by (intro exI [of _ dirs']) auto
  next
    case False
    with Cons.prems have none: "fs q = None" by simp
    from Cons.prems have "\<forall>r \<in> set qs. is_dir (insert q dirs) r \<or> fs r = None"
      by (auto intro: is_dir_insert)
    from Cons.IH [OF this] obtain dirs' where d: "mkdirs (insert q dirs) fs qs = Inr dirs'"
      "insert q dirs \<subseteq> dirs'" "dirs' \<subseteq> insert q dirs \<union> set qs" "\<forall>r \<in> set qs. is_dir dirs' r"
      by blast
    from d(2) have "is_dir dirs' q" by (auto simp: is_dir_def)
    with False none d show ?thesis by (intro exI [of _ dirs']) auto
  qed
qed

lemma mkdirs_stops:
  "\<exists>q \<in> set qs. \<not> is_dir dirs q \<and> fs q \<noteq> None \<Longrightarrow>
   mkdirs dirs fs qs = Inl FileExistsError \<or> mkdirs dirs fs qs = Inl NotADirectoryError"
proof (induction qs arbitrary: dirs)
  case Nil
  then show ?case by simp
next
  case (Cons q qs)
  show ?case
  proof (cases "\<not> is_dir dirs q \<and> fs q \<noteq> None")
    case True
    then show ?thesis by simp
  next
    case False
    with Cons.prems obtain r where r: "r \<in> set qs" "\<not> is_dir dirs r" "fs r \<noteq> None" by auto
    show ?thesis
    proof (cases "is_dir dirs q")
      case True
      with Cons.IH [of dirs] r show ?thesis by auto
    next
      case nd: False
      with False have "fs q = None" by simp
      with r have "\<not> is_dir (insert q dirs) r" by (auto simp: is_dir_def)
      with Cons.IH [of "insert q dirs"] r nd \<open>fs q = None\<close> show ?thesis by auto
    qed
  qed
qed

lemma walk_dirs: "\<forall>q \<in> set qs. is_dir dirs q \<Longrightarrow> walk dirs fs qs = None"
  by (induction qs) simp_all

lemma ancestors_of_path:
  "\<not> is_dir dirs p \<Longrightarrow> butlast (prefixes p) = prefixes (parent p)"
  by (cases p rule: rev_cases) (auto simp: is_dir_def parent_def)

lemma ancestors_of_dir:
  "set (butlast (prefixes p)) \<subseteq> set (prefixes (parent p))"
  by (cases p rule: rev_cases) (auto simp: parent_def)

section \<open>Phase 1: saving needs a state\<close>

lemma run_sets_state:
  "run env fs self = (Inr st, self') \<Longrightarrow> p1_state self' = Some st"
  by (auto simp: run_def map_basic_def Let_def split: option.splits sum.splits)

lemma init_no_state:
  "phase1_mapper_init dirs fs scan decisions = Inr self \<Longrightarrow> p1_state self = None"
  by (auto simp: phase1_mapper_init_def Let_def split: option.splits if_splits)

lemma save_state_writes:
  assumes "p1_state self = Some st"
    and "\<forall>q \<in> set (prefixes (parent (path_of output_path))). is_dir dirs q \<or> fs q = None"
    and "\<not> is_dir dirs (path_of output_path)"
  shows "\<exists>dirs'. save_state env self dirs fs output_path
            = (Inr (), dirs', fs(path_of output_path \<mapsto> state_header @ yaml_dump env st))
          \<and> (\<forall>q. is_dir dirs' q \<longleftrightarrow>
                 is_dir dirs q \<or> q \<in> set (prefixes (parent (path_of output_path))))"
proof -
  let ?p = "path_of output_path"
  from mkdirs_creates [OF assms(2)] obtain dirs' where
    m: "mkdirs dirs fs (prefixes (parent ?p)) = Inr dirs'"
    and sub: "dirs \<subseteq> dirs'" "dirs' \<subseteq> dirs \<union> set (prefixes (parent ?p))"
    and all: "\<forall>q \<in> set (prefixes (parent ?p)). is_dir dirs' q"
    by blast
  have w: "walk dirs' fs (butlast (prefixes ?p)) = None"
    using all by (simp add: ancestors_of_path [OF assms(3)] walk_dirs)
  have "?p \<noteq> []" "parent ?p = butlast ?p"
    using assms(3) by (auto simp: is_dir_def parent_def)
  then have "length (parent ?p) < length ?p"
    by simp
  then have "?p \<notin> set (prefixes (parent ?p))"
    by (auto dest: prefix_length_le)
  with sub(2) assms(3) have nd: "\<not> is_dir dirs' ?p"
    by (auto simp: is_dir_def)
  have iff: "\<forall>q. is_dir dirs' q \<longleftrightarrow> is_dir dirs q \<or> q \<in> set (prefixes (parent ?p))"
    using sub all by (auto simp: is_dir_def)
  have "save_state env self dirs fs output_path
      = (Inr (), dirs', fs(path_of output_path \<mapsto> state_header @ yaml_dump env st))"
    by (simp add: save_state_def assms(1) Let_def mkdir_parents_def m open_write_def w nd)
  with iff show ?thesis
    by blast
qed

lemma save_state_stops_at_file:
  assumes "p1_state self = Some st"
    and "\<exists>q \<in> set (prefixes (parent (path_of output_path))). \<not> is_dir dirs q \<and> fs q \<noteq> None"
  shows "save_state env self dirs fs output_path = (Inl FileExistsError, dirs, fs)
       \<or> save_state env self dirs fs output_path = (Inl NotADirectoryError, dirs, fs)"
  using mkdirs_stops [OF assms(2)]
  by (auto simp: save_state_def assms(1) Let_def mkdir_parents_def)

lemma save_state_on_directory:
  assumes "p1_state self = Some st"
    and "\<forall>q \<in> set (prefixes (parent (path_of output_path))). is_dir dirs q \<or> fs q = None"
    and "is_dir dirs (path_of output_path)"
  shows "fst (save_state env self dirs fs output_path) = Inl IsADirectoryError
       \<and> snd (snd (save_state env self dirs fs output_path)) = fs"
proof -
  let ?p = "path_of output_path"
  from mkdirs_creates [OF assms(2)] obtain dirs' where
    m: "mkdirs dirs fs (prefixes (parent ?p)) = Inr dirs'"
    and sub: "dirs \<subseteq> dirs'"
    and all: "\<forall>q \<in> set (prefixes (parent ?p)). is_dir dirs' q"
    by blast
  have "\<forall>q \<in> set (butlast (prefixes ?p)). is_dir dirs' q"
    using all ancestors_of_dir [of ?p] by blast
  then have w: "walk dirs' fs (butlast (prefixes ?p)) = None"
    by (rule walk_dirs)
  have d: "is_dir dirs' ?p"
    using sub assms(3) by (rule is_dir_mono)
  show ?thesis
    by (simp add: save_state_def assms(1) Let_def mkdir_parents_def m open_write_def w d)
qed

text \<open>
  C8, as stated, fails in its second half: after a \<open>run\<close> that returned a state,
  \<open>save_state\<close> raises for the empty path and for a directory (\<open>open\<close> raises
  IsADirectoryError) and for a path under a regular file (\<open>mkdir\<close> raises FileExistsError).
\<close>

theorem save_state_raises_after_run:
  "run example_env example_fs example_mapper
     = (Inr (fst (map_basic example_mapper example_scan ())),
        snd (map_basic example_mapper example_scan ()))
   \<and> fst (save_state example_env (snd (map_basic example_mapper example_scan ()))
             {} example_fs []) = Inl IsADirectoryError
   \<and> fst (save_state example_env (snd (map_basic example_mapper example_scan ()))
             {[''out'']} example_fs ''out'') = Inl IsADirectoryError
   \<and> fst (save_state example_env (snd (map_basic example_mapper example_scan ()))
             {} example_fs ''scan.json/state.yaml'') = Inl FileExistsError"
proof -
  have r: "run example_env example_fs example_mapper
     = (Inr (fst (map_basic example_mapper example_scan ())),
        snd (map_basic example_mapper example_scan ()))"
    by (simp add: run_def example_hyps split_beta)
  have s: "p1_state (snd (map_basic example_mapper example_scan ()))
      = Some (fst (map_basic example_mapper example_scan ()))"
    by (simp add: map_basic_state)
  have "fst (save_state example_env (snd (map_basic example_mapper example_scan ()))
             {} example_fs []) = Inl IsADirectoryError"
    by (simp add: save_state_def s mkdir_parents_def open_write_def path_of_def parent_def
        is_dir_def)
  moreover
  have "fst (save_state example_env (snd (map_basic example_mapper example_scan ()))
             {[''out'']} example_fs ''out'') = Inl IsADirectoryError"
    by (simp add: save_state_def s mkdir_parents_def open_write_def path_of_def parent_def
        is_dir_def)
  moreover
  have "fst (save_state example_env (snd (map_basic example_mapper example_scan ()))
             {} example_fs ''scan.json/state.yaml'') = Inl FileExistsError"
    by (simp add: save_state_def s mkdir_parents_def open_write_def path_of_def parent_def
        is_dir_def example_fs_def)
  ultimately show ?thesis
    using r by blast
qed

text \<open>
  C8, amended. A mapper as the constructor returns it has no state, and \<open>save_state\<close> on it
  fails with the RuntimeError of the missing state, an error of its own kind, and leaves the
  directories and the files as they were. After a \<open>run\<close> that returned a state,
  \<open>save_state\<close> never raises that RuntimeError, and for an output path without \<open>..\<close>:
  when no ancestor of the path is a regular file and the path is not a directory, it succeeds,
  the missing ancestors have become directories and the file at the path holds the header and
  the dump of that state; when an ancestor is a regular file, \<open>mkdir\<close> raises FileExistsError
  or NotADirectoryError and nothing has changed; when the path is a directory, \<open>open\<close> raises
  IsADirectoryError and no file has changed.
\<close>

theorem save_state_needs_run:
  "(phase1_mapper_init dirs0 fs0 scan decisions = Inr self \<longrightarrow>
      p1_state self = None
      \<and> save_state env self dirs fs output_path
          = (Inl (RuntimeError ''No state to save. Run map() first.''), dirs, fs))
   \<and> (run env fs1 self = (Inr st, self') \<longrightarrow>
      (\<forall>m. fst (save_state env self' dirs fs output_path) \<noteq> Inl (RuntimeError m))
      \<and> (''..'' \<notin> set (path_of output_path) \<longrightarrow>
          ((\<forall>q \<in> set (prefixes (parent (path_of output_path))). is_dir dirs q \<or> fs q = None)
           \<and> \<not> is_dir dirs (path_of output_path) \<longrightarrow>
             (\<exists>dirs'. save_state env self' dirs fs output_path
                 = (Inr (), dirs', fs(path_of output_path \<mapsto> state_header @ yaml_dump env st))
               \<and> (\<forall>q. is_dir dirs' q \<longleftrightarrow>
                      is_dir dirs q \<or> q \<in> set (prefixes (parent (path_of output_path))))))
          \<and> ((\<exists>q \<in> set (prefixes (parent (path_of output_path))).
                 \<not> is_dir dirs q \<and> fs q \<noteq> None) \<longrightarrow>
               save_state env self' dirs fs output_path = (Inl FileExistsError, dirs, fs)
               \<or> save_state env self' dirs fs output_path = (Inl NotADirectoryError, dirs, fs))
          \<and> ((\<forall>q \<in> set (prefixes (parent (path_of output_path))). is_dir dirs q \<or> fs q = None)
              \<and> is_dir dirs (path_of output_path) \<longrightarrow>
               fst (save_state env self' dirs fs output_path) = Inl IsADirectoryError
               \<and> snd (snd (save_state env self' dirs fs output_path)) = fs)))"
proof (intro conjI impI allI)
  assume "phase1_mapper_init dirs0 fs0 scan decisions = Inr self"
  then show n: "p1_state self = None" by (rule init_no_state)
  then show "save_state env self dirs fs output_path
          = (Inl (RuntimeError ''No state to save. Run map() first.''), dirs, fs)"
    by (simp add: save_state_def)
next
  fix m
  assume "run env fs1 self = (Inr st, self')"
  then have s: "p1_state self' = Some st" by (rule run_sets_state)
  show "fst (save_state env self' dirs fs output_path) \<noteq> Inl (RuntimeError m)"
  proof (cases "\<exists>q \<in> set (prefixes (parent (path_of output_path))). \<not> is_dir dirs q \<and> fs q \<noteq> None")
    case True
    from save_state_stops_at_file [where env = env, OF s True] show ?thesis by auto
  next
    case False
    then have a: "\<forall>q \<in> set (prefixes (parent (path_of output_path))). is_dir dirs q \<or> fs q = None"
      by blast
    show ?thesis
    proof (cases "is_dir dirs (path_of output_path)")
      case True
      from save_state_on_directory [where env = env, OF s a True] show ?thesis by simp
    next
      case False
      from save_state_writes [where env = env, OF s a False] show ?thesis by auto
    qed
  qed
next
  assume "run env fs1 self = (Inr st, self')"
  then have s: "p1_state self' = Some st" by (rule run_sets_state)
  assume h: "(\<forall>q \<in> set (prefixes (parent (path_of output_path))). is_dir dirs q \<or> fs q = None)
          \<and> \<not> is_dir dirs (path_of output_path)"
  show "\<exists>dirs'. save_state env self' dirs fs output_path
                = (Inr (), dirs', fs(path_of output_path \<mapsto> state_header @ yaml_dump env st))
              \<and> (\<forall>q. is_dir dirs' q \<longleftrightarrow>
                     is_dir dirs q \<or> q \<in> set (prefixes (parent (path_of output_path))))"
    by (rule save_state_writes [where env = env, OF s h [THEN conjunct1] h [THEN conjunct2]])
next
  assume "run env fs1 self = (Inr st, self')"
  then have s: "p1_state self' = Some st" by (rule run_sets_state)
  assume "\<exists>q \<in> set (prefixes (parent (path_of output_path))). \<not> is_dir dirs q \<and> fs q \<noteq> None"
  then show "save_state env self' dirs fs output_path = (Inl FileExistsError, dirs, fs)
            \<or> save_state env self' dirs fs output_path = (Inl NotADirectoryError, dirs, fs)"
    by (rule save_state_stops_at_file [where env = env, OF s])
next
  assume "run env fs1 self = (Inr st, self')"
  then have s: "p1_state self' = Some st" by (rule run_sets_state)
  assume h: "(\<forall>q \<in> set (prefixes (parent (path_of output_path))). is_dir dirs q \<or> fs q = None)
          \<and> is_dir dirs (path_of output_path)"
  from save_state_on_directory [where env = env, OF s h [THEN conjunct1] h [THEN conjunct2]]
  show "fst (save_state env self' dirs fs output_path) = Inl IsADirectoryError"
    and "snd (snd (save_state env self' dirs fs output_path)) = fs"
    by simp_all
qed

lemma example_init:
  "phase1_mapper_init {} example_fs ''scan.json'' None = Inr example_mapper"
  by (simp add: phase1_mapper_init_def example_fs_def example_mapper_def path_of_def
      path_exists_def is_dir_def)

lemma example_run:
  "run example_env example_fs example_mapper =
     (Inr (fst (map_basic example_mapper example_scan ())),
      snd (map_basic example_mapper example_scan ()))"
  by (simp add: run_def example_hyps split_beta)

lemma example_dump:
  "yaml_dump example_env (fst (map_basic example_mapper example_scan ())) = ''pendingpending''"
  by (simp add: example_env_def map_basic_state generate_proposals_def example_scan_def
      get_list_def subtenant_of_account_def)

lemma example_paths:
  "path_of ''out/state.yaml'' = [''out'', ''state.yaml'']"
  "path_of ''scan.json/state.yaml'' = [''scan.json'', ''state.yaml'']"
  "path_of ''out'' = [''out'']"
  by (simp_all add: path_of_def)

text \<open>
  The scenario: saving before \<open>run\<close>; after it, saving under a directory that is still
  missing, under the scan file, and onto a directory.
\<close>

theorem save_state_needs_run_witness:
  "phase1_mapper_init {} example_fs ''scan.json'' None = Inr example_mapper
   \<and> save_state example_env example_mapper {} example_fs ''out/state.yaml''
        = (Inl (RuntimeError ''No state to save. Run map() first.''), {}, example_fs)
   \<and> run example_env example_fs example_mapper
        = (Inr (fst (map_basic example_mapper example_scan ())),
           snd (map_basic example_mapper example_scan ()))
   \<and> save_state example_env (snd (map_basic example_mapper example_scan ())) {} example_fs
        ''out/state.yaml''
        = (Inr (), {[''out'']},
           example_fs([''out'', ''state.yaml''] \<mapsto> state_header @ ''pendingpending''))
   \<and> save_state example_env (snd (map_basic example_mapper example_scan ())) {} example_fs
        ''scan.json/state.yaml''
        = (Inl FileExistsError, {}, example_fs)
   \<and> save_state example_env (snd (map_basic example_mapper example_scan ())) {[''out'']}
        example_fs ''out''
        = (Inl IsADirectoryError, {[''out'']}, example_fs)"
proof -
  let ?st = "fst (map_basic example_mapper example_scan ())"
  let ?self' = "snd (map_basic example_mapper example_scan ())"
  note t = save_state_needs_run [of "{}" example_fs "''scan.json''" None example_mapper
      example_env "{}" example_fs "''out/state.yaml''" example_fs ?st ?self']
  have s: "p1_state ?self' = Some ?st"
    by (simp add: map_basic_state)
  have before: "save_state example_env example_mapper {} example_fs ''out/state.yaml''
        = (Inl (RuntimeError ''No state to save. Run map() first.''), {}, example_fs)"
    using t [THEN conjunct1, THEN mp, OF example_init] by (rule conjunct2)
  have no_dots: "''..'' \<notin> set (path_of ''out/state.yaml'')"
    by (simp add: example_paths)
  have hyps: "(\<forall>q \<in> set (prefixes (parent (path_of ''out/state.yaml''))).
            is_dir {} q \<or> example_fs q = None)
      \<and> \<not> is_dir {} (path_of ''out/state.yaml'')"
    by (simp add: example_paths parent_def is_dir_def example_fs_def)
  note after_run = t [THEN conjunct2, THEN mp, OF example_run]
  note writes = after_run [THEN conjunct2, THEN mp, OF no_dots, THEN conjunct1, THEN mp, OF hyps]
  from writes obtain dirs' where
    "save_state example_env ?self' {} example_fs ''out/state.yaml''
       = (Inr (), dirs',
          example_fs(path_of ''out/state.yaml'' \<mapsto> state_header @ yaml_dump example_env ?st))"
    by blast
  moreover
  have "fst (snd (save_state example_env ?self' {} example_fs ''out/state.yaml'')) = {[''out'']}"
    by (simp add: save_state_def s example_paths parent_def mkdir_parents_def is_dir_def
        example_fs_def open_write_def split: sum.splits)
  ultimately
  have after: "save_state example_env ?self' {} example_fs ''out/state.yaml''
        = (Inr (), {[''out'']},
           example_fs([''out'', ''state.yaml''] \<mapsto> state_header @ ''pendingpending''))"
    by (simp add: example_paths example_dump)
  have under_file: "save_state example_env ?self' {} example_fs ''scan.json/state.yaml''
        = (Inl FileExistsError, {}, example_fs)"
    by (simp add: save_state_def s example_paths parent_def mkdir_parents_def is_dir_def
        example_fs_def)
  have on_dir: "save_state example_env ?self' {[''out'']} example_fs ''out''
        = (Inl IsADirectoryError, {[''out'']}, example_fs)"
    by (simp add: save_state_def s example_paths parent_def mkdir_parents_def is_dir_def
        open_write_def)
  from example_init before example_run after under_file on_dir show ?thesis
    by blast
qed

end
